theory Spec2Isabelle
  imports Complex_Main "HOL-Library.AList"
begin

section \<open>Data model of \<^verbatim>\<open>shenfun/matrixbase.py\<close>\<close>

text \<open>
  Python floats are modelled by the reals: every tolerance of the source
  (\<^verbatim>\<open>1e-8\<close>, \<^verbatim>\<open>1e-15\<close>, \<^verbatim>\<open>1e-10\<close>) is the exact rational number, and
  arithmetic does not round.  Exceptions are values of the type \<open>error\<close>.
\<close>

datatype error =
  KeyError | ValueError | AssertionError | RuntimeError | IndexError
  | ZeroDivisionError | NotImplementedError | AttributeError | UnboundLocalError

text \<open>
  A stored diagonal is either a number or a one-dimensional array
  (\<^verbatim>\<open>d = {-1: 1, 0: -2, 1: 1}\<close> or \<^verbatim>\<open>{0: -2*np.ones(N)}\<close> in the class docstring).
\<close>

datatype diag = Num real | Arr "real list"

text \<open>
  \<^verbatim>\<open>SparseMatrix.__init__\<close>: \<^verbatim>\<open>_storage = dict(d)\<close>, \<^verbatim>\<open>shape\<close>, \<^verbatim>\<open>scale\<close>.  The
  dictionary is an association list in insertion order with distinct keys.
\<close>

record SparseMatrix =
  storage :: "(int \<times> diag) list"
  shape :: "nat \<times> nat"
  scale :: real

definition keys :: "SparseMatrix \<Rightarrow> int list" where
  "keys A = map fst (storage A)"

definition getitem :: "SparseMatrix \<Rightarrow> int \<Rightarrow> error + diag" where
  "getitem A key = (case map_of (storage A) key of None \<Rightarrow> Inl KeyError | Some v \<Rightarrow> Inr v)"

definition setitem :: "SparseMatrix \<Rightarrow> int \<Rightarrow> diag \<Rightarrow> SparseMatrix" where
  "setitem A key val = A\<lparr>storage := AList.update key val (storage A)\<rparr>"

text \<open>\<^verbatim>\<open>copy\<close> is \<^verbatim>\<open>SparseMatrix(deepcopy(dict(self)), self.shape, self.scale)\<close>.\<close>

definition copy :: "SparseMatrix \<Rightarrow> SparseMatrix" where
  "copy A = \<lparr>storage = storage A, shape = shape A, scale = scale A\<rparr>"

subsection \<open>Scalar multiplication and division\<close>

text \<open>\<^verbatim>\<open>__mul__\<close> with a number: \<^verbatim>\<open>c = self.copy(); c.scale *= y; return c\<close>.\<close>

definition SparseMatrix_mul :: "SparseMatrix \<Rightarrow> real \<Rightarrow> SparseMatrix" where
  "SparseMatrix_mul A y = (let c = copy A in c\<lparr>scale := scale c * y\<rparr>)"

text \<open>
  \<^verbatim>\<open>__div__\<close> with a number: \<^verbatim>\<open>assert abs(y) > 1e-8; c = self.copy(); c.scale /= y\<close>.
  The failed assertion is the error the specification calls a DomainError.
\<close>

definition SparseMatrix_div :: "SparseMatrix \<Rightarrow> real \<Rightarrow> error + SparseMatrix" where
  "SparseMatrix_div A y =
     (if \<bar>y\<bar> > 1 / 10 ^ 8 then (let c = copy A in Inr (c\<lparr>scale := scale c / y\<rparr>))
      else Inl AssertionError)"

text \<open>\<^verbatim>\<open>__truediv__\<close> delegates to \<^verbatim>\<open>__div__\<close>.\<close>

definition SparseMatrix_truediv :: "SparseMatrix \<Rightarrow> real \<Rightarrow> error + SparseMatrix" where
  "SparseMatrix_truediv A y = SparseMatrix_div A y"

subsection \<open>Elementwise arithmetic on diagonals\<close>

text \<open>
  numpy's binary operators on two stored diagonals: a number combines with anything,
  two arrays combine when their lengths agree or one of them has length one
  (broadcasting); otherwise numpy raises \<^verbatim>\<open>ValueError\<close>.
\<close>

fun broadcast2 :: "(real \<Rightarrow> real \<Rightarrow> real) \<Rightarrow> diag \<Rightarrow> diag \<Rightarrow> error + diag" where
  "broadcast2 f (Num x) (Num y) = Inr (Num (f x y))"
| "broadcast2 f (Num x) (Arr ys) = Inr (Arr (map (f x) ys))"
| "broadcast2 f (Arr xs) (Num y) = Inr (Arr (map (\<lambda>x. f x y) xs))"
| "broadcast2 f (Arr xs) (Arr ys) =
     (if length xs = length ys then Inr (Arr (map2 f xs ys))
      else if length xs = 1 then Inr (Arr (map (f (hd xs)) ys))
      else if length ys = 1 then Inr (Arr (map (\<lambda>x. f x (hd ys)) xs))
      else Inl ValueError)"

text \<open>\<^verbatim>\<open>np.all(abs(d) < 1e-8)\<close>.\<close>

fun all_abs_below :: "diag \<Rightarrow> bool" where
  "all_abs_below (Num x) = (\<bar>x\<bar> < 1 / 10 ^ 8)"
| "all_abs_below (Arr xs) = list_all (\<lambda>x. \<bar>x\<bar> < 1 / 10 ^ 8) xs"

subsection \<open>Solver selection\<close>

text \<open>The solver classes imported from \<^verbatim>\<open>.la\<close> by \<^verbatim>\<open>get_solver\<close>.\<close>

datatype solver = Solve | TDMA | TDMA_O | FDMA | TwoDMA | PDMA

definition sorted_keys :: "SparseMatrix \<Rightarrow> int list" where
  "sorted_keys A = sort (keys A)"

text \<open>
  The loop of \<^verbatim>\<open>issymmetric\<close> over \<^verbatim>\<open>self.items()\<close>: non-positive keys are skipped;
  for a positive key, \<^verbatim>\<open>self[key]-self[-key]\<close> raises \<^verbatim>\<open>KeyError\<close> when \<^verbatim>\<open>-key\<close> is not
  stored.
\<close>

fun issymmetric_loop :: "SparseMatrix \<Rightarrow> (int \<times> diag) list \<Rightarrow> error + bool" where
  "issymmetric_loop A [] = Inr True"
| "issymmetric_loop A ((key, val) # items) =
     (if key \<le> 0 then issymmetric_loop A items
      else (case getitem A key of Inl e \<Rightarrow> Inl e | Inr a \<Rightarrow>
            (case getitem A (- key) of Inl e \<Rightarrow> Inl e | Inr b \<Rightarrow>
             (case broadcast2 (-) a b of Inl e \<Rightarrow> Inl e | Inr d \<Rightarrow>
                if \<not> all_abs_below d then Inr False else issymmetric_loop A items))))"

definition issymmetric :: "SparseMatrix \<Rightarrow> error + bool" where
  "issymmetric A =
     (if sum_list (keys A) \<noteq> 0 then Inr False else issymmetric_loop A (storage A))"

text \<open>
  \<^verbatim>\<open>get_solver\<close>.  Python's \<^verbatim>\<open>and\<close> evaluates \<^verbatim>\<open>self.issymmetric\<close> only when its left
  operand is true: after the key test for three diagonals, after the length test for
  five.
\<close>

definition get_solver :: "SparseMatrix \<Rightarrow> error + solver" where
  "get_solver A =
     (if length (storage A) = 2 then
        (if sorted_keys A = [0, 2] then Inr TwoDMA else Inr Solve)
      else if length (storage A) = 3 then
        (if sorted_keys A = [- 2, 0, 2] then Inr TDMA
         else if sorted_keys A = [- 1, 0, 1] then
           (case issymmetric A of Inl e \<Rightarrow> Inl e
            | Inr s \<Rightarrow> if s then Inr TDMA_O else Inr Solve)
         else Inr Solve)
      else if length (storage A) = 4 then
        (if sorted_keys A = [- 2, 0, 2, 4] then Inr FDMA else Inr Solve)
      else if length (storage A) = 5 then
        (case issymmetric A of Inl e \<Rightarrow> Inl e
         | Inr s \<Rightarrow>
             if s then (if sorted_keys A = [- 4, - 2, 0, 2, 4] then Inr PDMA else Inr Solve)
             else Inr Solve)
      else Inr Solve)"


subsection \<open>Conversion to scipy's sparse formats\<close>

text \<open>
  \<^verbatim>\<open>diags\<close> calls \<^verbatim>\<open>scipy.sparse.diags(list(self.values()), list(self.keys()),
  shape=self.shape, format=format)\<close>.  scipy is not part of the repository; what
  \<^verbatim>\<open>__eq__\<close> uses of it is modelled here:
  \<^item> with no diagonal at all scipy raises \<^verbatim>\<open>ValueError\<close> (the maximum of an empty list);
  \<^item> the diagonal at offset \<open>k\<close> of an \<open>m \<times> n\<close> matrix has
    \<^verbatim>\<open>length = min(m + k, n - k, min(m, n))\<close> entries; a negative length raises
    \<^verbatim>\<open>ValueError\<close>;
  \<^item> every diagonal goes through \<^verbatim>\<open>np.atleast_1d\<close> and is stored by
    \<^verbatim>\<open>data_arr[j, k:k+length] = diagonal[..., :length]\<close>: a longer array is truncated, an
    array of length one (so also a number) is broadcast, any other length raises
    \<^verbatim>\<open>ValueError\<close>;
  \<^item> entry \<open>t\<close> of the diagonal at offset \<open>k\<close> is the matrix entry \<open>(t, t + k)\<close> for
    \<open>k \<ge> 0\<close> and \<open>(t - k, t)\<close> for \<open>k < 0\<close>;
  \<^item> the \<^verbatim>\<open>data\<close> attribute of the compressed-row format lists the stored entries row
    by row with increasing column, and the conversion from the diagonal format drops
    the entries that are exactly zero.
\<close>

definition diag_length :: "nat \<times> nat \<Rightarrow> int \<Rightarrow> int" where
  "diag_length sh k = min (min (int (fst sh) + k) (int (snd sh) - k)) (int (min (fst sh) (snd sh)))"

fun atleast_1d :: "diag \<Rightarrow> real list" where
  "atleast_1d (Num x) = [x]"
| "atleast_1d (Arr xs) = xs"

definition diag_fits :: "nat \<times> nat \<Rightarrow> int \<times> diag \<Rightarrow> bool" where
  "diag_fits sh kd =
     (0 \<le> diag_length sh (fst kd) \<and>
      (length (atleast_1d (snd kd)) = 1 \<or>
       diag_length sh (fst kd) \<le> int (length (atleast_1d (snd kd)))))"

definition diag_at :: "diag \<Rightarrow> nat \<Rightarrow> real" where
  "diag_at d t = (let xs = atleast_1d d in if length xs = 1 then xs ! 0 else xs ! t)"

definition entry :: "SparseMatrix \<Rightarrow> nat \<Rightarrow> nat \<Rightarrow> real" where
  "entry A i j =
     (case map_of (storage A) (int j - int i) of None \<Rightarrow> 0 | Some d \<Rightarrow> diag_at d (min i j))"

definition csr_data :: "SparseMatrix \<Rightarrow> real list" where
  "csr_data A =
     concat (map (\<lambda>i. filter (\<lambda>x. x \<noteq> 0) (map (entry A i) [0..<snd (shape A)]))
               [0..<fst (shape A)])"

text \<open>\<^verbatim>\<open>self.diags('csr', False).data\<close>: the unscaled matrix, \<^verbatim>\<open>self.scale\<close> is not read.\<close>

definition diags_csr_unscaled_data :: "SparseMatrix \<Rightarrow> error + real list" where
  "diags_csr_unscaled_data A =
     (if storage A = [] then Inl ValueError
      else if \<not> list_all (diag_fits (shape A)) (storage A) then Inl ValueError
      else Inr (csr_data A))"

subsection \<open>Structural equality\<close>

text \<open>
  \<^verbatim>\<open>same_keys\<close> compares \<^verbatim>\<open>hash(frozenset(self))\<close>.  CPython computes the hash of a
  frozenset from the hashes of its elements, in no order, and the hash of an integer
  \<open>k\<close> is \<open>k\<close> itself, except that \<open>-1\<close> has the hash \<open>-2\<close> (offsets are far below the
  modulus \<open>2\<^sup>6\<^sup>1 - 1\<close>).  The hash of the set of offsets is written here as the sorted
  list of the hashes of its elements; collisions of the mixing of those hashes are not
  modelled.  \<^verbatim>\<open>np.linalg.norm\<close> of a one-dimensional array is the 2-norm.
\<close>

definition py_hash :: "int \<Rightarrow> int" where
  "py_hash k = (if k = - 1 then - 2 else k)"

definition frozenset_hash :: "int list \<Rightarrow> int list" where
  "frozenset_hash ks = sort (map py_hash (sorted_list_of_set (set ks)))"

definition same_keys :: "SparseMatrix \<Rightarrow> SparseMatrix \<Rightarrow> bool" where
  "same_keys A a = (frozenset_hash (keys A) = frozenset_hash (keys a))"

definition norm2 :: "real list \<Rightarrow> real" where
  "norm2 xs = sqrt (sum_list (map (\<lambda>x. x * x) xs))"

definition SparseMatrix_eq :: "SparseMatrix \<Rightarrow> SparseMatrix \<Rightarrow> error + bool" where
  "SparseMatrix_eq A a =
     (if shape A \<noteq> shape a then Inr False
      else if \<not> same_keys A a then Inr False
      else (case diags_csr_unscaled_data A of Inl e \<Rightarrow> Inl e | Inr d0 \<Rightarrow>
            (case diags_csr_unscaled_data a of Inl e \<Rightarrow> Inl e | Inr a0 \<Rightarrow>
               if length d0 \<noteq> length a0 then Inr False
               else if \<not> norm2 (map2 (-) d0 a0) < 1 / 10 ^ 8 then Inr False
               else Inr True)))"


subsection \<open>Addition and subtraction\<close>

text \<open>\<^verbatim>\<open>val*self.scale\<close> and \<^verbatim>\<open>-val\<close> on a stored diagonal.\<close>

fun diag_map :: "(real \<Rightarrow> real) \<Rightarrow> diag \<Rightarrow> diag" where
  "diag_map f (Num x) = Num (f x)"
| "diag_map f (Arr xs) = Arr (map f xs)"

text \<open>
  \<^verbatim>\<open>incorporate_scale\<close>: nothing happens when the scale is within \<^verbatim>\<open>1e-8\<close> of one;
  otherwise every diagonal is multiplied by the scale and the scale becomes one.  (No
  class of this file defines \<^verbatim>\<open>_keyscale\<close>, so the loop over the items is the branch
  taken.)
\<close>

definition incorporate_scale :: "SparseMatrix \<Rightarrow> SparseMatrix" where
  "incorporate_scale A =
     (if \<bar>scale A - 1\<bar> < 1 / 10 ^ 8 then A
      else A\<lparr>storage := map (\<lambda>(key, val). (key, diag_map (\<lambda>x. x * scale A) val)) (storage A),
             scale := 1\<rparr>)"

text \<open>
The effective matrix: the stored diagonals times the scale.
\<close>

definition effective :: "SparseMatrix \<Rightarrow> (int \<times> diag) list" where
  "effective A = map (\<lambda>(key, val). (key, diag_map (\<lambda>x. x * scale A) val)) (storage A)"

text \<open>
  The merge loops of \<^verbatim>\<open>__add__\<close> and \<^verbatim>\<open>__sub__\<close> over \<^verbatim>\<open>d.items()\<close>:
  \<^verbatim>\<open>f[key] = f[key] + val\<close> when the key is stored in \<^verbatim>\<open>f\<close>, \<^verbatim>\<open>f[key] = val\<close> (or
  \<^verbatim>\<open>-val\<close>) otherwise.
\<close>

fun add_loop :: "SparseMatrix \<Rightarrow> (int \<times> diag) list \<Rightarrow> error + SparseMatrix" where
  "add_loop f [] = Inr f"
| "add_loop f ((key, val) # items) =
     (case map_of (storage f) key of
        Some x \<Rightarrow> (case broadcast2 (+) x val of Inl e \<Rightarrow> Inl e
                   | Inr s \<Rightarrow> add_loop (setitem f key s) items)
      | None \<Rightarrow> add_loop (setitem f key val) items)"

fun sub_loop :: "SparseMatrix \<Rightarrow> (int \<times> diag) list \<Rightarrow> error + SparseMatrix" where
  "sub_loop f [] = Inr f"
| "sub_loop f ((key, val) # items) =
     (case map_of (storage f) key of
        Some x \<Rightarrow> (case broadcast2 (-) x val of Inl e \<Rightarrow> Inl e
                   | Inr s \<Rightarrow> sub_loop (setitem f key s) items)
      | None \<Rightarrow> sub_loop (setitem f key (diag_map uminus val)) items)"

text \<open>
  \<^verbatim>\<open>__add__\<close> and \<^verbatim>\<open>__sub__\<close>.  In the last branch \<^verbatim>\<open>d.incorporate_scale()\<close> changes
  the right operand, so the functions return the result together with the right
  operand as the call leaves it.  The receiver is copied before anything is changed.
\<close>

definition SparseMatrix_add ::
  "SparseMatrix \<Rightarrow> SparseMatrix \<Rightarrow> error + (SparseMatrix \<times> SparseMatrix)" where
  "SparseMatrix_add self d =
     (if \<bar>scale self\<bar> < 1 / 10 ^ 15 \<and> \<bar>scale d\<bar> < 1 / 10 ^ 15 then
        Inr (\<lparr>storage = [(0, Num 0)], shape = shape self, scale = 1\<rparr>, d)
      else if \<bar>scale self\<bar> < 1 / 10 ^ 15 then
        Inr (\<lparr>storage = storage d, shape = shape d, scale = scale d\<rparr>, d)
      else if \<bar>scale d\<bar> < 1 / 10 ^ 15 then Inr (copy self, d)
      else
        (let f = incorporate_scale \<lparr>storage = storage self, shape = shape self, scale = scale self\<rparr>;
             d' = incorporate_scale d
         in case add_loop f (storage d') of Inl e \<Rightarrow> Inl e | Inr f' \<Rightarrow> Inr (f', d')))"

definition SparseMatrix_sub ::
  "SparseMatrix \<Rightarrow> SparseMatrix \<Rightarrow> error + (SparseMatrix \<times> SparseMatrix)" where
  "SparseMatrix_sub self d =
     (if \<bar>scale self\<bar> < 1 / 10 ^ 15 \<and> \<bar>scale d\<bar> < 1 / 10 ^ 15 then
        Inr (\<lparr>storage = [(0, Num 0)], shape = shape self, scale = 1\<rparr>, d)
      else if \<bar>scale self\<bar> < 1 / 10 ^ 15 then
        Inr (\<lparr>storage = storage d, shape = shape d, scale = - scale d\<rparr>, d)
      else if \<bar>scale d\<bar> < 1 / 10 ^ 15 then Inr (copy self, d)
      else
        (let f = incorporate_scale \<lparr>storage = storage self, shape = shape self, scale = scale self\<rparr>;
             d' = incorporate_scale d
         in case sub_loop f (storage d') of Inl e \<Rightarrow> Inl e | Inr f' \<Rightarrow> Inr (f', d')))"




subsection \<open>Well-formed matrices\<close>






subsection \<open>Compression of a dense matrix\<close>

text \<open>
  A dense numpy array of \<^verbatim>\<open>ndim=2\<close> with real entries: its shape and its entries
  \<^verbatim>\<open>M[i, j]\<close> (read for \<open>i < nrows\<close>, \<open>j < ncols\<close> only).
\<close>

record ndarray2 =
  nrows :: nat
  ncols :: nat
  elem :: "nat \<Rightarrow> nat \<Rightarrow> real"

text \<open>All entries, row by row, as \<^verbatim>\<open>abs(M).max()\<close> reduces over them.\<close>

definition flat :: "ndarray2 \<Rightarrow> real list" where
  "flat M = concat (map (\<lambda>i. map (elem M i) [0..<ncols M]) [0..<nrows M])"

text \<open>
  \<^verbatim>\<open>M.diagonal(k)\<close>: the entries \<^verbatim>\<open>M[t, t + k]\<close> for \<open>k \<ge> 0\<close> and \<^verbatim>\<open>M[t - k, t]\<close> for
  \<open>k < 0\<close>; empty when the offset is outside the matrix.
\<close>

definition diagonal :: "ndarray2 \<Rightarrow> int \<Rightarrow> real list" where
  "diagonal M k =
     (if 0 \<le> k then map (\<lambda>t. elem M t (t + nat k)) [0..<min (nrows M) (ncols M - nat k)]
      else map (\<lambda>t. elem M (t + nat (- k)) t) [0..<min (nrows M - nat (- k)) (ncols M)])"

text \<open>
  \<^verbatim>\<open>abs(u).max()\<close>: numpy raises \<^verbatim>\<open>ValueError\<close> on an array without entries.
\<close>

fun max_abs :: "real list \<Rightarrow> real" where
  "max_abs [] = 0"
| "max_abs (x # xs) = fold (\<lambda>y m. max m \<bar>y\<bar>) xs \<bar>x\<bar>"

definition abs_max :: "real list \<Rightarrow> error + real" where
  "abs_max xs = (if xs = [] then Inl ValueError else Inr (max_abs xs))"

text \<open>
  The two loops of \<^verbatim>\<open>extract_diagonal_matrix\<close>, over the offsets
  \<^verbatim>\<open>range(M.shape[1])\<close> and then over the negated \<^verbatim>\<open>range(1, M.shape[0])\<close>.  The second
  operand of \<^verbatim>\<open>and\<close> is the division by \<^verbatim>\<open>relmax\<close>.
\<close>

fun extract_loop ::
  "ndarray2 \<Rightarrow> real \<Rightarrow> real \<Rightarrow> real \<Rightarrow> int list \<Rightarrow> (int \<times> diag) list \<Rightarrow> error + (int \<times> diag) list" where
  "extract_loop M abstol reltol relmax [] d = Inr d"
| "extract_loop M abstol reltol relmax (k # ks) d =
     (case abs_max (diagonal M k) of Inl e \<Rightarrow> Inl e
      | Inr m \<Rightarrow>
          if m > abstol \<and> m / relmax > reltol
          then extract_loop M abstol reltol relmax ks (AList.update k (Arr (diagonal M k)) d)
          else extract_loop M abstol reltol relmax ks d)"

definition extract_diagonal_matrix :: "ndarray2 \<Rightarrow> real \<Rightarrow> real \<Rightarrow> error + SparseMatrix" where
  "extract_diagonal_matrix M abstol reltol =
     (case abs_max (flat M) of Inl e \<Rightarrow> Inl e
      | Inr relmax \<Rightarrow>
         (case extract_loop M abstol reltol relmax (map int [0..<ncols M]) [] of Inl e \<Rightarrow> Inl e
          | Inr d \<Rightarrow>
             (case extract_loop M abstol reltol relmax (map (\<lambda>i. - int i) [1..<nrows M]) d of
                Inl e \<Rightarrow> Inl e
              | Inr d' \<Rightarrow> Inr \<lparr>storage = d', shape = (nrows M, ncols M), scale = 1\<rparr>)))"

text \<open>The retention test of a diagonal, used in the proofs.\<close>

definition kept :: "ndarray2 \<Rightarrow> real \<Rightarrow> real \<Rightarrow> int \<Rightarrow> bool" where
  "kept M abstol reltol k =
     (max_abs (diagonal M k) > abstol \<and> max_abs (diagonal M k) / max_abs (flat M) > reltol)"

subsection \<open>numpy arrays of any dimension\<close>

text \<open>
  An n-dimensional numpy array is a nesting of lists, a zero-dimensional one a single
  entry; the arrays of the program are regular (all rows of one length).  An array
  with a dimension of length zero other than the first cannot be written this way.
\<close>

datatype 'a nd = Sc 'a | Vec "'a nd list"

fun nd_shape :: "'a nd \<Rightarrow> nat list" where
  "nd_shape (Sc x) = []"
| "nd_shape (Vec []) = [0]"
| "nd_shape (Vec (x # xs)) = Suc (length xs) # nd_shape x"

text \<open>
  numpy's binary operators broadcast: the shapes are aligned at their last axes (the
  array of fewer dimensions gets leading axes of length one), and along every axis
  the lengths agree or one of them is one; otherwise \<^verbatim>\<open>ValueError\<close>.
\<close>

fun promote :: "nat \<Rightarrow> 'a nd \<Rightarrow> 'a nd" where
  "promote 0 a = a"
| "promote (Suc n) a = Vec [promote n a]"

fun collect :: "(error + 'a) list \<Rightarrow> error + 'a list" where
  "collect [] = Inr []"
| "collect (Inl e # rs) = Inl e"
| "collect (Inr x # rs) = (case collect rs of Inl e \<Rightarrow> Inl e | Inr xs \<Rightarrow> Inr (x # xs))"

primrec broadcast_same :: "('a \<Rightarrow> 'a \<Rightarrow> 'a) \<Rightarrow> 'a nd \<Rightarrow> 'a nd \<Rightarrow> error + 'a nd" where
  "broadcast_same f (Sc x) b = (case b of Sc y \<Rightarrow> Inr (Sc (f x y)) | Vec ys \<Rightarrow> Inl ValueError)"
| "broadcast_same f (Vec xs) b =
     (case b of Sc y \<Rightarrow> Inl ValueError
      | Vec ys \<Rightarrow>
          (let gs = map (\<lambda>x. broadcast_same f x) xs in
           if length xs = length ys then map_sum id Vec (collect (map2 (\<lambda>g y. g y) gs ys))
           else if length xs = 1 then map_sum id Vec (collect (map (hd gs) ys))
           else if length ys = 1 then map_sum id Vec (collect (map (\<lambda>g. g (hd ys)) gs))
           else Inl ValueError))"

definition nd_binop :: "('a \<Rightarrow> 'a \<Rightarrow> 'a) \<Rightarrow> 'a nd \<Rightarrow> 'a nd \<Rightarrow> error + 'a nd" where
  "nd_binop f a b =
     (let n = length (nd_shape a); m = length (nd_shape b)
      in broadcast_same f (promote (m - n) a) (promote (n - m) b))"

text \<open>
  \<^verbatim>\<open>a[tuple(ss)]\<close> for a tuple of slices, \<open>None\<close> standing for \<^verbatim>\<open>slice(None)\<close> and
  \<open>Some (lo, hi)\<close> for \<^verbatim>\<open>slice(lo, hi)\<close>; more slices than dimensions raise
  \<^verbatim>\<open>IndexError\<close>.
\<close>

primrec nd_slice :: "'a nd \<Rightarrow> (nat \<times> nat) option list \<Rightarrow> error + 'a nd" where
  "nd_slice (Sc x) ss = (case ss of [] \<Rightarrow> Inr (Sc x) | s # ss' \<Rightarrow> Inl IndexError)"
| "nd_slice (Vec xs) ss =
     (case ss of [] \<Rightarrow> Inr (Vec xs)
      | s # ss' \<Rightarrow>
          (let rs = map (\<lambda>x. nd_slice x ss') xs in
           map_sum id Vec
             (collect (case s of None \<Rightarrow> rs | Some (lo, hi) \<Rightarrow> take (hi - lo) (drop lo rs)))))"

text \<open>
  \<^verbatim>\<open>c.fill(x)\<close>, and the assignment \<^verbatim>\<open>c[:] = x\<close> (also \<^verbatim>\<open>c *= s\<close>, as
  \<^verbatim>\<open>c[:] = c*s\<close>): the right-hand side is broadcast to the shape of \<open>c\<close>, which must
  not grow.
\<close>

definition fill :: "real nd \<Rightarrow> real \<Rightarrow> real nd" where
  "fill c x = map_nd (\<lambda>y. x) c"

definition assign_all :: "real nd \<Rightarrow> real nd \<Rightarrow> error + real nd" where
  "assign_all c x =
     (case nd_binop (\<lambda>old new. new) c x of Inl e \<Rightarrow> Inl e
      | Inr r \<Rightarrow> if nd_shape r = nd_shape c then Inr r else Inl ValueError)"

text \<open>
  \<^verbatim>\<open>u[sl] = x\<close>: \<open>x\<close> is broadcast to the shape of the slice and written into it.
\<close>

primrec nd_put :: "'a nd \<Rightarrow> (nat \<times> nat) option list \<Rightarrow> 'a nd \<Rightarrow> 'a nd" where
  "nd_put (Sc x) ss y = (case ss of [] \<Rightarrow> y | s # ss' \<Rightarrow> Sc x)"
| "nd_put (Vec xs) ss y =
     (case ss of [] \<Rightarrow> y
      | s # ss' \<Rightarrow>
         (case y of Sc z \<Rightarrow> Vec xs
          | Vec ys \<Rightarrow>
             (let lo = (case s of None \<Rightarrow> 0 | Some (lo, hi) \<Rightarrow> lo);
                  hi = (case s of None \<Rightarrow> length xs | Some (lo, hi) \<Rightarrow> hi);
                  gs = map (\<lambda>x. nd_put x ss') xs
              in Vec (take lo xs @ map2 (\<lambda>g y. g y) (take (hi - lo) (drop lo gs)) ys
                      @ drop (max lo hi) xs))))"

definition nd_setitem :: "real nd \<Rightarrow> (nat \<times> nat) option list \<Rightarrow> real nd \<Rightarrow> error + real nd" where
  "nd_setitem u sl x =
     (case nd_slice u sl of Inl e \<Rightarrow> Inl e
      | Inr target \<Rightarrow>
         (case assign_all target x of Inl e \<Rightarrow> Inl e | Inr y \<Rightarrow> Inr (nd_put u sl y)))"

text \<open>
  \<^verbatim>\<open>a.item()\<close> (the single entry of an array of size one, else \<^verbatim>\<open>ValueError\<close>) and
  \<^verbatim>\<open>a[tuple(iit)]\<close> with one index per dimension (with fewer indices numpy returns a
  sub-array, which the callers modelled here never use: it is \<^verbatim>\<open>ValueError\<close> in the
  model).
\<close>

fun nd_flat :: "'a nd \<Rightarrow> 'a list" where
  "nd_flat (Sc x) = [x]"
| "nd_flat (Vec xs) = concat (map nd_flat xs)"

definition nd_item :: "'a nd \<Rightarrow> error + 'a" where
  "nd_item a = (case nd_flat a of [x] \<Rightarrow> Inr x | _ \<Rightarrow> Inl ValueError)"

fun nd_index :: "'a nd \<Rightarrow> nat list \<Rightarrow> error + 'a" where
  "nd_index (Sc x) [] = Inr x"
| "nd_index (Sc x) (i # is) = Inl IndexError"
| "nd_index (Vec xs) [] = Inl ValueError"
| "nd_index (Vec xs) (i # is) = (if i < length xs then nd_index (xs ! i) is else Inl IndexError)"

subsection \<open>Per-axis matrices of the three classes\<close>

text \<open>
  The per-axis matrices of a TPMatrix are instances of \<^verbatim>\<open>SparseMatrix\<close>,
  \<^verbatim>\<open>Identity\<close> or \<^verbatim>\<open>SpectralMatrix\<close> (or a subclass of it, given by its class name).
  Of a basis, an external collaborator, the program reads here the class and
  \<^verbatim>\<open>boundary_condition()\<close>; \<^verbatim>\<open>testfunction\<close> and \<^verbatim>\<open>trialfunction\<close> are pairs of a
  basis and a derivative order.
\<close>

record basis =
  basis_class :: string
  boundary_condition :: string

datatype matrix_class =
  SparseMatrix_class | Identity_class | SpectralMatrix_class string "basis \<times> int" "basis \<times> int"

record axis_matrix =
  sm :: SparseMatrix
  cls :: matrix_class

text \<open>
\<^verbatim>\<open>Identity(shape)\<close> is \<^verbatim>\<open>SparseMatrix.__init__(self, {0:1}, shape, scale)\<close> with scale 1.
\<close>

definition Identity :: "nat \<times> nat \<Rightarrow> axis_matrix" where
  "Identity sh = \<lparr>sm = \<lparr>storage = [(0, Num 1)], shape = sh, scale = 1\<rparr>, cls = Identity_class\<rparr>"

text \<open>
  \<^verbatim>\<open>is_bc_matrix\<close>: \<^verbatim>\<open>False\<close> in \<^verbatim>\<open>SparseMatrix\<close>,
  \<^verbatim>\<open>self.trialfunction[0].boundary_condition() == 'Apply'\<close> in \<^verbatim>\<open>SpectralMatrix\<close>.
\<close>

definition is_bc_matrix :: "axis_matrix \<Rightarrow> bool" where
  "is_bc_matrix m =
     (case cls m of SpectralMatrix_class name test trial \<Rightarrow> boundary_condition (fst trial) = ''Apply''
      | _ \<Rightarrow> False)"

text \<open>
  \<^verbatim>\<open>get_key\<close>: \<^verbatim>\<open>hash(frozenset(self))\<close> in \<^verbatim>\<open>SparseMatrix\<close> (the hash of the set of
  offsets); in \<^verbatim>\<open>SpectralMatrix\<close> the class name when it ends
  with \<^verbatim>\<open>mat\<close>, else the hash of the classes and derivative orders of the test and trial
  functions.  Hash collisions are not modelled: keys of different kinds differ.
\<close>

datatype key = KeySet "int list" | KeyName string | KeyHash "(string \<times> int) \<times> (string \<times> int)"

definition get_key :: "axis_matrix \<Rightarrow> key" where
  "get_key m =
     (case cls m of
        SpectralMatrix_class name test trial \<Rightarrow>
          (if take 3 (rev name) = rev ''mat'' then KeyName name
           else KeyHash ((basis_class (fst test), snd test), (basis_class (fst trial), snd trial)))
      | _ \<Rightarrow> KeySet (frozenset_hash (keys (sm m))))"

text \<open>
  \<^verbatim>\<open>SpectralMatrix.__eq__\<close>, and the dispatch of \<^verbatim>\<open>m0 == m1\<close>: the method of the left
  operand's class, except that a right operand of a proper subclass that overrides
  \<^verbatim>\<open>__eq__\<close> is asked first (a plain \<^verbatim>\<open>SparseMatrix\<close> against a \<^verbatim>\<open>SpectralMatrix\<close>).
  \<^verbatim>\<open>SparseMatrix.__eq__\<close> of an \<^verbatim>\<open>Identity\<close> against a \<^verbatim>\<open>SpectralMatrix\<close> compares the
  hash of a frozenset with the hash of a tuple in \<^verbatim>\<open>same_keys\<close>, or the shapes
  before: false either way.
\<close>

definition SpectralMatrix_eq :: "axis_matrix \<Rightarrow> axis_matrix \<Rightarrow> error + bool" where
  "SpectralMatrix_eq self a =
     (if shape (sm self) \<noteq> shape (sm a) then Inr False
      else if get_key self \<noteq> get_key a then Inr False
      else (case diags_csr_unscaled_data (sm self) of Inl e \<Rightarrow> Inl e | Inr d0 \<Rightarrow>
            (case diags_csr_unscaled_data (sm a) of Inl e \<Rightarrow> Inl e | Inr a0 \<Rightarrow>
               if length d0 \<noteq> length a0 then Inr False
               else if \<not> norm2 (map2 (-) d0 a0) < 1 / 10 ^ 8 then Inr False
               else Inr True)))"

definition is_spectral :: "axis_matrix \<Rightarrow> bool" where
  "is_spectral m = (case cls m of SpectralMatrix_class name test trial \<Rightarrow> True | _ \<Rightarrow> False)"

definition matrix_eq :: "axis_matrix \<Rightarrow> axis_matrix \<Rightarrow> error + bool" where
  "matrix_eq m0 m1 =
     (if is_spectral m0 then SpectralMatrix_eq m0 m1
      else if is_spectral m1 then
        (if cls m0 = SparseMatrix_class then SpectralMatrix_eq m1 m0 else Inr False)
      else SparseMatrix_eq (sm m0) (sm m1))"

text \<open>
  \<^verbatim>\<open>copy\<close> and the product with a number for the three classes: \<^verbatim>\<open>__deepcopy__\<close>
  returns \<^verbatim>\<open>Identity(self.shape, self.scale)\<close> for an \<^verbatim>\<open>Identity\<close> and a
  \<^verbatim>\<open>SparseMatrix\<close> for every other class, also for a \<^verbatim>\<open>SpectralMatrix\<close>.
\<close>

definition matrix_copy :: "axis_matrix \<Rightarrow> axis_matrix" where
  "matrix_copy m =
     (if cls m = Identity_class
      then \<lparr>sm = \<lparr>storage = [(0, Num 1)], shape = shape (sm m), scale = scale (sm m)\<rparr>,
            cls = Identity_class\<rparr>
      else \<lparr>sm = copy (sm m), cls = SparseMatrix_class\<rparr>)"

definition matrix_mul :: "axis_matrix \<Rightarrow> real \<Rightarrow> axis_matrix" where
  "matrix_mul m y = (let c = matrix_copy m in c\<lparr>sm := (sm c)\<lparr>scale := scale (sm c) * y\<rparr>\<rparr>)"

subsection \<open>Tensor product matrices\<close>

text \<open>
  What a TPMatrix reads of its \<^verbatim>\<open>TensorProductSpace\<close>, an external collaborator:
  \<^verbatim>\<open>dimensions\<close>, \<^verbatim>\<open>len(space)\<close> (the field \<open>len_space\<close>), \<^verbatim>\<open>get_nondiagonal_axes()\<close>, \<^verbatim>\<open>local_slice()\<close> (as
  pairs of bounds), \<^verbatim>\<open>space[axis].broadcast_to_ndims(x)\<close>, the slices
  \<^verbatim>\<open>[s.slice() for s in bases]\<close> and the array of zeros \<^verbatim>\<open>Function(space)\<close>.
\<close>

record TensorProductSpace =
  dimensions :: nat
  len_space :: nat
  get_nondiagonal_axes :: "nat list"
  local_slice :: "(nat \<times> nat) list"
  broadcast_to_ndims :: "nat \<Rightarrow> real list \<Rightarrow> real nd"
  bases_slice :: "(nat \<times> nat) list"
  Function :: "real nd"

text \<open>
  \<^verbatim>\<open>pmat\<close> is \<^verbatim>\<open>1\<close>, one matrix or the list of matrices.  The attribute \<^verbatim>\<open>scale\<close>
  of a TPMatrix is the field \<open>scale_array\<close> (an ndarray); \<^verbatim>\<open>testbase\<close> and
  \<^verbatim>\<open>trialbase\<close> are only passed on and are left out.
\<close>

datatype pmat = PmatOne | PmatMatrix axis_matrix | PmatList "axis_matrix list"

record TPMatrix =
  mats :: "axis_matrix list"
  space :: TensorProductSpace
  trialspace :: TensorProductSpace
  scale_array :: "real nd"
  pmat :: pmat
  naxes :: "nat list"
  global_index :: "(nat \<times> nat) option"
  issimplified :: bool

text \<open>
\<^verbatim>\<open>TPMatrix.__init__\<close> with its assertion \<^verbatim>\<open>len(mats) == len(testspace)\<close>.
\<close>

definition TPMatrix_init ::
  "axis_matrix list \<Rightarrow> TensorProductSpace \<Rightarrow> TensorProductSpace \<Rightarrow> real nd \<Rightarrow> (nat \<times> nat) option
   \<Rightarrow> error + TPMatrix" where
  "TPMatrix_init ms testspace trial sc gi =
     (if length ms \<noteq> len_space testspace then Inl AssertionError
      else Inr \<lparr>mats = ms, space = testspace, trialspace = trial, scale_array = sc,
                pmat = PmatOne, naxes = get_nondiagonal_axes testspace, global_index = gi,
                issimplified = False\<rparr>)"

text \<open>
\<^verbatim>\<open>np.setxor1d\<close>: the sorted values that are in exactly one of the two arrays.
\<close>

definition setxor1d :: "nat list \<Rightarrow> nat list \<Rightarrow> nat list" where
  "setxor1d xs ys = sort (remdups (filter (\<lambda>x. x \<notin> set ys) xs @ filter (\<lambda>y. y \<notin> set xs) ys))"

text \<open>
  The loop of \<^verbatim>\<open>get_simplified\<close> over \<^verbatim>\<open>range(self.dimensions)\<close>: on a diagonal axis
  \<^verbatim>\<open>d = mat[0]\<close> (a \<^verbatim>\<open>KeyError\<close> without the main diagonal), an array \<open>d\<close> becomes
  \<^verbatim>\<open>broadcast_to_ndims(d*mat.scale)\<close>, a number stays as it is, then
  \<^verbatim>\<open>scale = scale*d\<close> and the matrix is replaced by \<^verbatim>\<open>Identity(mat.shape)\<close>.
\<close>

fun simplify_loop ::
  "TPMatrix \<Rightarrow> nat list \<Rightarrow> nat list \<Rightarrow> axis_matrix list \<Rightarrow> real nd
   \<Rightarrow> error + (axis_matrix list \<times> real nd)" where
  "simplify_loop T diagonal_axes [] ms sc = Inr (ms, sc)"
| "simplify_loop T diagonal_axes (axis # axes) ms sc =
     (let mat = mats T ! axis in
      if axis \<in> set diagonal_axes then
        (case getitem (sm mat) 0 of Inl e \<Rightarrow> Inl e
         | Inr d \<Rightarrow>
            (let d' = (case d of Num x \<Rightarrow> Sc x
                       | Arr xs \<Rightarrow> broadcast_to_ndims (space T) axis
                                    (map (\<lambda>x. x * scale (sm mat)) xs))
             in case nd_binop (*) sc d' of Inl e \<Rightarrow> Inl e
                | Inr sc' \<Rightarrow>
                    simplify_loop T diagonal_axes axes (ms @ [Identity (shape (sm mat))]) sc'))
      else simplify_loop T diagonal_axes axes (ms @ [mat]) sc)"

text \<open>
  The decomposition step: \<^verbatim>\<open>ss[axis] = ls[axis]\<close> for every axis along which the
  scale array is longer than one.
\<close>

fun decomposition_loop ::
  "(nat \<times> nat) list \<Rightarrow> (nat \<times> nat) list \<Rightarrow> (nat \<times> nat) option list
   \<Rightarrow> error + (nat \<times> nat) option list" where
  "decomposition_loop ls [] ss = Inr ss"
| "decomposition_loop ls ((axis, n) # rest) ss =
     (if n > 1 then
        (if axis < length ls \<and> axis < length ss
         then decomposition_loop ls rest (ss[axis := Some (ls ! axis)])
         else Inl IndexError)
      else decomposition_loop ls rest ss)"

text \<open>
  \<^verbatim>\<open>get_simplified\<close> returns \<^verbatim>\<open>self\<close> when there is no diagonal axis or the matrix is
  already simplified, and a new TPMatrix otherwise; it assigns nothing to \<^verbatim>\<open>self\<close>
  or to its matrices.  The link \<^verbatim>\<open>tpmat.mats[tpmat.naxes[0]]\<close> is an \<^verbatim>\<open>IndexError\<close>
  when the only non-diagonal axis is not an index of the list of matrices.
\<close>

definition get_simplified :: "TPMatrix \<Rightarrow> error + TPMatrix" where
  "get_simplified T =
     (let diagonal_axes = setxor1d (naxes T) [0..<dimensions (space T)] in
      if length diagonal_axes = 0 \<or> issimplified T then Inr T
      else
        (case simplify_loop T diagonal_axes [0..<length (mats T)] [] (scale_array T) of
           Inl e \<Rightarrow> Inl e
         | Inr (ms, sc) \<Rightarrow>
            (case TPMatrix_init ms (space T) (trialspace T) sc (global_index T) of
               Inl e \<Rightarrow> Inl e
             | Inr tpmat \<Rightarrow>
                (case (if len_space (space T) > 1 then
                         (case decomposition_loop (local_slice (space T))
                                 (zip [0..<length (nd_shape (scale_array tpmat))]
                                      (nd_shape (scale_array tpmat)))
                                 (replicate (dimensions (space T)) None) of
                            Inl e \<Rightarrow> Inl e
                          | Inr ss \<Rightarrow> nd_slice (scale_array tpmat) ss)
                       else Inr (scale_array tpmat)) of
                   Inl e \<Rightarrow> Inl e
                 | Inr sc' \<Rightarrow>
                     (if length (naxes tpmat) = 1 \<and> \<not> hd (naxes tpmat) < length (mats tpmat)
                      then Inl IndexError
                      else
                        Inr (tpmat\<lparr>scale_array := sc',
                                   pmat := (if length (naxes tpmat) = 1
                                            then PmatMatrix (mats tpmat ! hd (naxes tpmat))
                                            else if length (naxes tpmat) = 2
                                            then PmatList (mats tpmat)
                                            else pmat tpmat),
                                   issimplified := True\<rparr>))))))"








text \<open>
  What \<^verbatim>\<open>matvec\<close> and \<^verbatim>\<open>solve\<close> take from outside this file: the matrix-vector
  product of a per-axis matrix along an axis in the configured format
  (\<^verbatim>\<open>pmat.matvec(v, c, format=format, axis=axis)\<close>), the pencil axis, the sizes of the
  sub-communicators, the two directions of the transfer between pencils with the zero
  array of the second pencil's shape, and the two generic solvers.  The input \<open>v\<close> is
  a plain array (rank zero), on a space that is not padded.
\<close>

record collaborators =
  sparse_matvec :: "axis_matrix \<Rightarrow> real nd \<Rightarrow> real nd \<Rightarrow> nat \<Rightarrow> error + real nd"
  pencil_axis :: nat
  subcomms :: "nat list"
  transfer_forward :: "real nd \<Rightarrow> real nd"
  transfer_backward :: "real nd \<Rightarrow> real nd"
  subshapeB_zeros :: "real nd"
  SolverGeneric1ND :: "TPMatrix \<Rightarrow> real nd \<Rightarrow> real nd option \<Rightarrow> (nat \<times> real) list \<Rightarrow> error + real nd option"
  SolverGeneric2ND :: "TPMatrix \<Rightarrow> real nd \<Rightarrow> real nd option \<Rightarrow> (nat \<times> real) list \<Rightarrow> error + real nd option"

text \<open>
The branch of \<^verbatim>\<open>matvec\<close> for two non-diagonal axes.
\<close>

definition matvec_two_axes ::
  "collaborators \<Rightarrow> TPMatrix \<Rightarrow> real nd \<Rightarrow> real nd \<Rightarrow> error + real nd" where
  "matvec_two_axes K tpmat v c =
     (let axis = pencil_axis K in
      if \<not> axis < length (subcomms K) then Inl IndexError
      else if subcomms K ! axis \<noteq> 1 then Inl AssertionError
      else if axis \<notin> set (naxes tpmat) then Inl ValueError
      else
        (let second_axis = hd (remove1 axis (naxes tpmat)) in
         if \<not> axis < length (mats tpmat) then Inl IndexError
         else (case sparse_matvec K (mats tpmat ! axis) v c axis of Inl e \<Rightarrow> Inl e
          | Inr c1 \<Rightarrow>
             if \<not> second_axis < length (mats tpmat) then Inl IndexError
             else (case sparse_matvec K (mats tpmat ! second_axis) (transfer_forward K c1)
                          (subshapeB_zeros K) second_axis of Inl e \<Rightarrow> Inl e
              | Inr cC \<Rightarrow>
                 (let c2 = transfer_backward K cC in
                  case nd_binop (*) c2 (scale_array tpmat) of Inl e \<Rightarrow> Inl e
                  | Inr x \<Rightarrow> assign_all c2 x)))))"

text \<open>
  \<^verbatim>\<open>TPMatrix.matvec\<close>.  With one non-diagonal axis it calls \<^verbatim>\<open>tpmat.pmat.matvec\<close>,
  an \<^verbatim>\<open>AttributeError\<close> when \<^verbatim>\<open>pmat\<close> is still \<^verbatim>\<open>1\<close>.
\<close>

definition TPMatrix_matvec ::
  "collaborators \<Rightarrow> TPMatrix \<Rightarrow> real nd \<Rightarrow> real nd \<Rightarrow> error + real nd" where
  "TPMatrix_matvec K T v c =
     (case get_simplified T of Inl e \<Rightarrow> Inl e
      | Inr tpmat \<Rightarrow>
         (let c0 = fill c 0 in
          if length (naxes tpmat) = 0 then
            (case nd_binop (*) (scale_array tpmat) v of Inl e \<Rightarrow> Inl e
             | Inr x \<Rightarrow> assign_all c0 x)
          else if length (naxes tpmat) = 1 then
            (case pmat tpmat of
               PmatMatrix p \<Rightarrow>
                 (case sparse_matvec K p v c0 (hd (naxes tpmat)) of Inl e \<Rightarrow> Inl e
                  | Inr c1 \<Rightarrow>
                     (case nd_binop (*) c1 (scale_array tpmat) of Inl e \<Rightarrow> Inl e
                      | Inr x \<Rightarrow> assign_all c1 x))
             | _ \<Rightarrow> Inl AttributeError)
          else if length (naxes tpmat) = 2 then matvec_two_axes K tpmat v c0
          else Inr c0))"

text \<open>
  Floating-point numbers as \<^verbatim>\<open>solve\<close> meets them: a finite number, an infinity (of
  either sign) or not-a-number.  \<^verbatim>\<open>1./tpmat.scale\<close> under
  \<^verbatim>\<open>np.errstate(divide='ignore')\<close> gives an infinity at a zero entry, zero at an
  infinite entry and not-a-number at such an entry; at a finite entry \<open>x \<noteq> 0\<close> it is
  the machine's quotient \<open>quot x\<close>, a parameter of the model: a finite number, or an
  infinity when the quotient overflows.  \<^verbatim>\<open>np.where(np.isfinite(d), d, 0)\<close> replaces
  what is not finite by zero.
\<close>

datatype float = Finite real | Inf | NaN

definition reciprocal :: "(real \<Rightarrow> float) \<Rightarrow> float \<Rightarrow> float" where
  "reciprocal quot s =
     (case s of Finite x \<Rightarrow> (if x = 0 then Inf else quot x) | Inf \<Rightarrow> Finite 0 | NaN \<Rightarrow> NaN)"

definition where_isfinite :: "float \<Rightarrow> real" where
  "where_isfinite d = (case d of Finite y \<Rightarrow> y | _ \<Rightarrow> 0)"

definition invert_scale :: "(real \<Rightarrow> float) \<Rightarrow> float nd \<Rightarrow> real nd" where
  "invert_scale quot sc = map_nd where_isfinite (map_nd (reciprocal quot) sc)"

text \<open>
  \<^verbatim>\<open>TPMatrix.solve\<close>; the constraints are pairs \<^verbatim>\<open>(row, val)\<close>.  The scale array of a
  TPMatrix of this model holds finite numbers; \<open>invert_scale\<close> is defined on every
  array of floating-point numbers.
\<close>

definition TPMatrix_solve ::
  "collaborators \<Rightarrow> (real \<Rightarrow> float) \<Rightarrow> TPMatrix \<Rightarrow> real nd \<Rightarrow> real nd option \<Rightarrow> (nat \<times> real) list
   \<Rightarrow> error + real nd option" where
  "TPMatrix_solve K quot T b u constraints =
     (case get_simplified T of Inl e \<Rightarrow> Inl e
      | Inr tpmat \<Rightarrow>
         if length (naxes tpmat) = 0 then
           (let sl = map Some (bases_slice (trialspace tpmat));
                d = map_nd (reciprocal quot) (map_nd Finite (scale_array tpmat))
            in if constraints \<noteq> [] \<and> hd constraints \<noteq> (0, 0) then Inl AssertionError
               else
                 (let d' = map_nd where_isfinite d;
                      u' = (case u of None \<Rightarrow> Function (space tpmat) | Some w \<Rightarrow> w)
                  in case nd_slice b sl of Inl e \<Rightarrow> Inl e
                     | Inr bs \<Rightarrow>
                        (case nd_slice d' sl of Inl e \<Rightarrow> Inl e
                         | Inr ds \<Rightarrow>
                            (case nd_binop (*) bs ds of Inl e \<Rightarrow> Inl e
                             | Inr x \<Rightarrow> map_sum id Some (nd_setitem u' sl x)))))
         else if length (naxes tpmat) = 1 then SolverGeneric1ND K tpmat b u constraints
         else if length (naxes tpmat) = 2 then SolverGeneric2ND K tpmat b u constraints
         else Inr u)"

text \<open>
  \<^verbatim>\<open>Identity.solve\<close>: \<^verbatim>\<open>u *= (1/self.scale)\<close>.  With a zero scale the quotient raises
  \<^verbatim>\<open>ZeroDivisionError\<close> when \<^verbatim>\<open>self.scale\<close> is a Python number, and is an infinity
  (with a warning) when it is a numpy scalar, which \<open>numpy_scale\<close> tells; the product of
  an entry with an infinity is an infinity, or not-a-number for a zero entry.
\<close>

definition float_times :: "real \<Rightarrow> float \<Rightarrow> float" where
  "float_times x d =
     (case d of Finite y \<Rightarrow> Finite (x * y) | Inf \<Rightarrow> (if x = 0 then NaN else Inf) | NaN \<Rightarrow> NaN)"

definition Identity_solve ::
  "bool \<Rightarrow> (real \<Rightarrow> float) \<Rightarrow> axis_matrix \<Rightarrow> real nd \<Rightarrow> real nd option \<Rightarrow> error + float nd" where
  "Identity_solve numpy_scale quot self b u =
     (if (case u of None \<Rightarrow> False | Some w \<Rightarrow> nd_shape w \<noteq> nd_shape b) then Inl AssertionError
      else if scale (sm self) = 0 \<and> \<not> numpy_scale then Inl ZeroDivisionError
      else Inr (map_nd (\<lambda>x. float_times x (reciprocal quot (Finite (scale (sm self))))) b))"

text \<open>The quotient without rounding and overflow, to run the definitions.\<close>

definition exact_reciprocal :: "real \<Rightarrow> float" where
  "exact_reciprocal x = Finite (1 / x)"

subsection \<open>Block matrices\<close>

text \<open>
  \<^verbatim>\<open>BlockMatrix.mats\<close> is a grid whose cells are the integer zero or a list of
  matrices, each a \<^verbatim>\<open>TPMatrix\<close> or a \<^verbatim>\<open>SparseMatrix\<close>.  The field \<open>cells\<close> is the
  attribute \<^verbatim>\<open>mats\<close>; \<open>testbase_is_mixed\<close> is
  \<^verbatim>\<open>isinstance(self.testbase, MixedFunctionSpace)\<close>.
\<close>

datatype block_entry = TP TPMatrix | SM axis_matrix

datatype cell = Number int | Mats "block_entry list"

record BlockMatrix =
  cells :: "cell list list"
  testbase_is_mixed :: bool

definition TPMatrix_is_bc_matrix :: "TPMatrix \<Rightarrow> bool" where
  "TPMatrix_is_bc_matrix T = list_ex is_bc_matrix (mats T)"

fun entry_is_bc_matrix :: "block_entry \<Rightarrow> bool" where
  "entry_is_bc_matrix (TP T) = TPMatrix_is_bc_matrix T"
| "entry_is_bc_matrix (SM m) = is_bc_matrix m"

text \<open>
  \<^verbatim>\<open>contains_bc_matrix\<close> and \<^verbatim>\<open>contains_regular_matrix\<close> look through the cells that
  are lists, for a matrix with \<^verbatim>\<open>m.is_bc_matrix() is True\<close>, respectively
  \<^verbatim>\<open>is False\<close>.
\<close>

fun cell_mats :: "cell \<Rightarrow> block_entry list" where
  "cell_mats (Number n) = []"
| "cell_mats (Mats ms) = ms"

definition contains_bc_matrix :: "BlockMatrix \<Rightarrow> bool" where
  "contains_bc_matrix B =
     list_ex (\<lambda>mi. list_ex (\<lambda>mij. list_ex (\<lambda>m. entry_is_bc_matrix m = True) (cell_mats mij)) mi)
       (cells B)"

definition contains_regular_matrix :: "BlockMatrix \<Rightarrow> bool" where
  "contains_regular_matrix B =
     list_ex (\<lambda>mi. list_ex (\<lambda>mij. list_ex (\<lambda>m. entry_is_bc_matrix m = False) (cell_mats mij)) mi)
       (cells B)"

text \<open>
  The operations of \<^verbatim>\<open>scipy.sparse\<close> that \<^verbatim>\<open>diags\<close> uses, on a type \<open>'m\<close> of sparse
  matrices: \<^verbatim>\<open>kron\<close>, \<^verbatim>\<open>+\<close>, the product with a number, \<^verbatim>\<open>bmat\<close> and the conversion
  \<^verbatim>\<open>SparseMatrix.diags(format)\<close>.  scipy is not part of the repository.  Where it
  refuses its arguments (a diagonal that does not fit the shape, blocks of mismatching
  dimensions) it raises \<^verbatim>\<open>ValueError\<close>: \<^verbatim>\<open>bmat\<close> and \<^verbatim>\<open>diags\<close> return \<open>None\<close> for a
  refusal, and \<open>scipy_result\<close> turns it into the error.
\<close>

record 'm scipy_sparse =
  sp_kron :: "'m \<Rightarrow> 'm \<Rightarrow> 'm"
  sp_plus :: "'m \<Rightarrow> 'm \<Rightarrow> 'm"
  sp_times :: "'m \<Rightarrow> real \<Rightarrow> 'm"
  sp_bmat :: "'m option list list \<Rightarrow> 'm option"
  sp_diags :: "SparseMatrix \<Rightarrow> 'm option"

definition scipy_result :: "'m option \<Rightarrow> error + 'm" where
  "scipy_result r = (case r of None \<Rightarrow> Inl ValueError | Some m \<Rightarrow> Inr m)"

text \<open>
  \<^verbatim>\<open>iit = np.where(np.array(m.scale.shape) == 1, 0, it)\<close> and
  \<^verbatim>\<open>m.scale[tuple(iit)]\<close>.
\<close>

definition where_shape_is_1 :: "nat list \<Rightarrow> nat list \<Rightarrow> error + nat list" where
  "where_shape_is_1 sh it =
     (if length it = length sh then Inr (map2 (\<lambda>n i. if n = 1 then 0 else i) sh it)
      else if length it = 1 then Inr (map (\<lambda>n. if n = 1 then 0 else hd it) sh)
      else if length sh = 1 then Inr (map (\<lambda>i. if hd sh = 1 then 0 else i) it)
      else Inl ValueError)"

definition scale_at :: "TPMatrix \<Rightarrow> nat list \<Rightarrow> error + real" where
  "scale_at m it =
     (case where_shape_is_1 (nd_shape (scale_array m)) it of Inl e \<Rightarrow> Inl e
      | Inr iit \<Rightarrow> nd_index (scale_array m) iit)"

definition axis_diags :: "'m scipy_sparse \<Rightarrow> TPMatrix \<Rightarrow> nat \<Rightarrow> error + 'm" where
  "axis_diags S m i =
     (if i < length (mats m) then scipy_result (sp_diags S (sm (mats m ! i))) else Inl IndexError)"

text \<open>
  \<^verbatim>\<open>TPMatrix.diags\<close>: the nested \<^verbatim>\<open>kron\<close> for two to five dimensions; with another
  number of dimensions \<^verbatim>\<open>mat\<close> is never assigned.
\<close>

fun kron_all :: "'m scipy_sparse \<Rightarrow> 'm \<Rightarrow> 'm list \<Rightarrow> 'm" where
  "kron_all S d [] = d"
| "kron_all S d (e # ds) = sp_kron S d (kron_all S e ds)"

definition TPMatrix_diags :: "'m scipy_sparse \<Rightarrow> TPMatrix \<Rightarrow> error + 'm" where
  "TPMatrix_diags S T =
     (if issimplified T then Inl AssertionError
      else if length (mats T) \<in> {2, 3, 4, 5} then
        (case collect (map (\<lambda>m. scipy_result (sp_diags S (sm m))) (mats T)) of Inl e \<Rightarrow> Inl e
         | Inr ds \<Rightarrow>
            (case nd_item (scale_array T) of Inl e \<Rightarrow> Inl e
             | Inr sc \<Rightarrow> Inr (sp_times S (kron_all S (hd ds) (tl ds)) sc)))
      else Inl UnboundLocalError)"

text \<open>
  The block of one cell in \<^verbatim>\<open>BlockMatrix.diags\<close>: the first matrix of the cell
  chooses the branch, and every matrix of the cell contributes one term.
\<close>

fun entry_diags :: "'m scipy_sparse \<Rightarrow> block_entry \<Rightarrow> error + 'm" where
  "entry_diags S (TP T) = TPMatrix_diags S T"
| "entry_diags S (SM m) = scipy_result (sp_diags S (sm m))"

definition naxes_diags :: "'m scipy_sparse \<Rightarrow> TPMatrix \<Rightarrow> nat \<Rightarrow> error + 'm" where
  "naxes_diags S m j = (if j < length (naxes m) then axis_diags S m (naxes m ! j) else Inl IndexError)"

fun kron_item_term :: "'m scipy_sparse \<Rightarrow> block_entry \<Rightarrow> error + 'm" where
  "kron_item_term S (SM m) = Inl AttributeError"
| "kron_item_term S (TP m) =
     (case nd_item (scale_array m) of Inl e \<Rightarrow> Inl e
      | Inr sc \<Rightarrow>
         (case axis_diags S m 0 of Inl e \<Rightarrow> Inl e
          | Inr d0 \<Rightarrow>
             (case axis_diags S m 1 of Inl e \<Rightarrow> Inl e
              | Inr d1 \<Rightarrow> Inr (sp_times S (sp_kron S d0 d1) sc))))"

fun kron_naxes_term :: "'m scipy_sparse \<Rightarrow> nat list \<Rightarrow> block_entry \<Rightarrow> error + 'm" where
  "kron_naxes_term S it (SM m) = Inl AttributeError"
| "kron_naxes_term S it (TP m) =
     (case scale_at m it of Inl e \<Rightarrow> Inl e
      | Inr sc \<Rightarrow>
         (case naxes_diags S m 0 of Inl e \<Rightarrow> Inl e
          | Inr d0 \<Rightarrow>
             (case naxes_diags S m 1 of Inl e \<Rightarrow> Inl e
              | Inr d1 \<Rightarrow> Inr (sp_times S (sp_kron S d0 d1) sc))))"

fun single_axis_term :: "'m scipy_sparse \<Rightarrow> nat list \<Rightarrow> block_entry \<Rightarrow> error + 'm" where
  "single_axis_term S it (SM m) = Inl AttributeError"
| "single_axis_term S it (TP m) =
     (case scale_at m it of Inl e \<Rightarrow> Inl e
      | Inr sc \<Rightarrow>
         (case naxes_diags S m 0 of Inl e \<Rightarrow> Inl e
          | Inr d0 \<Rightarrow> Inr (sp_times S d0 sc)))"

fun sum_terms ::
  "'m scipy_sparse \<Rightarrow> (block_entry \<Rightarrow> error + 'm) \<Rightarrow> 'm \<Rightarrow> block_entry list \<Rightarrow> error + 'm" where
  "sum_terms S term d [] = Inr d"
| "sum_terms S term d (mj # rest) =
     (case term mj of Inl e \<Rightarrow> Inl e | Inr t \<Rightarrow> sum_terms S term (sp_plus S d t) rest)"

definition block_sum ::
  "'m scipy_sparse \<Rightarrow> (block_entry \<Rightarrow> error + 'm) \<Rightarrow> block_entry list \<Rightarrow> error + 'm" where
  "block_sum S term mij =
     (case mij of [] \<Rightarrow> Inl IndexError
      | m # rest \<Rightarrow> (case term m of Inl e \<Rightarrow> Inl e | Inr d \<Rightarrow> sum_terms S term d rest))"

definition cell_block :: "'m scipy_sparse \<Rightarrow> bool \<Rightarrow> nat list \<Rightarrow> cell \<Rightarrow> error + 'm option" where
  "cell_block S mixed it mij =
     (case mij of Number n \<Rightarrow> Inr None
      | Mats ms \<Rightarrow>
         (case ms of [] \<Rightarrow> Inl IndexError
          | m # rest \<Rightarrow>
             map_sum id Some
               (if mixed then block_sum S (entry_diags S) ms
                else (case m of SM a \<Rightarrow> Inl AttributeError
                      | TP t \<Rightarrow>
                         if length (naxes t) = 2 then
                           (if length (mats t) = 2 then block_sum S (kron_item_term S) ms
                            else block_sum S (kron_naxes_term S it) ms)
                         else block_sum S (single_axis_term S it) ms))))"

definition assemble_blocks ::
  "'m scipy_sparse \<Rightarrow> BlockMatrix \<Rightarrow> nat list \<Rightarrow> error + 'm" where
  "assemble_blocks S B it =
     (case collect (map (\<lambda>mi. collect (map (cell_block S (testbase_is_mixed B) it) mi)) (cells B)) of
        Inl e \<Rightarrow> Inl e
      | Inr bm \<Rightarrow> scipy_result (sp_bmat S bm))"

text \<open>
  \<^verbatim>\<open>BlockMatrix.diags\<close>: the guard that raises \<^verbatim>\<open>RuntimeError\<close>, then the assembly.
\<close>

definition BlockMatrix_diags :: "'m scipy_sparse \<Rightarrow> BlockMatrix \<Rightarrow> nat list \<Rightarrow> error + 'm" where
  "BlockMatrix_diags S B it =
     (if contains_bc_matrix B \<and> contains_regular_matrix B then Inl RuntimeError
      else assemble_blocks S B it)"

text \<open>
All matrices of a block matrix, cell by cell.
\<close>

definition all_mats :: "BlockMatrix \<Rightarrow> block_entry list" where
  "all_mats B = concat (map cell_mats (concat (cells B)))"

text \<open>
  The term that a matrix \<open>mj\<close> contributes to its cell, in the branch that the first
  matrix \<open>m0\<close> of the cell chooses, and what the statements below say of a cell: it is
  ready when it is the number zero or a non-empty list each of whose matrices yields
  its term, and its block is then \<open>None\<close>, respectively the sum of the terms in the
  order of the list.
\<close>

definition term_of ::
  "'m scipy_sparse \<Rightarrow> bool \<Rightarrow> nat list \<Rightarrow> block_entry \<Rightarrow> block_entry \<Rightarrow> error + 'm" where
  "term_of S mixed it m0 mj =
     (if mixed then entry_diags S mj
      else (case m0 of SM a \<Rightarrow> Inl AttributeError
            | TP t \<Rightarrow>
               if length (naxes t) = 2 then
                 (if length (mats t) = 2 then kron_item_term S mj else kron_naxes_term S it mj)
               else single_axis_term S it mj))"

definition cell_assembled ::
  "'m scipy_sparse \<Rightarrow> bool \<Rightarrow> nat list \<Rightarrow> cell \<Rightarrow> 'm option \<Rightarrow> bool" where
  "cell_assembled S mixed it c v =
     (case c of Number n \<Rightarrow> v = None
      | Mats ms \<Rightarrow>
          (\<exists>ds. list_all2 (\<lambda>mj d. term_of S mixed it (hd ms) mj = Inr d) ms ds \<and> ds \<noteq> [] \<and>
                v = Some (foldl (sp_plus S) (hd ds) (tl ds))))"

definition cell_ready :: "'m scipy_sparse \<Rightarrow> bool \<Rightarrow> nat list \<Rightarrow> cell \<Rightarrow> bool" where
  "cell_ready S mixed it c =
     (case c of Number n \<Rightarrow> True
      | Mats ms \<Rightarrow> ms \<noteq> [] \<and> list_all (\<lambda>mj. \<exists>d. term_of S mixed it (hd ms) mj = Inr d) ms)"

subsection \<open>Example data\<close>

text \<open>
  A symbolic reading of the scipy operations, one-dimensional spaces and terms on
  them, used to run the definitions on concrete inputs.
\<close>

datatype sparse_expr =
  Diags SparseMatrix | Kron sparse_expr sparse_expr | Plus sparse_expr sparse_expr
  | Times sparse_expr real | Bmat "sparse_expr option list list"

definition symbolic_scipy :: "sparse_expr scipy_sparse" where
  "symbolic_scipy =
     \<lparr>sp_kron = Kron, sp_plus = Plus, sp_times = Times, sp_bmat = (\<lambda>bm. Some (Bmat bm)),
      sp_diags = (\<lambda>A. Some (Diags A))\<rparr>"

definition line_space :: TensorProductSpace where
  "line_space =
     \<lparr>dimensions = 1, len_space = 1, get_nondiagonal_axes = [0], local_slice = [(0, 2)],
      broadcast_to_ndims = (\<lambda>axis xs. Vec (map Sc xs)), bases_slice = [(0, 2)],
      Function = Vec [Sc 0, Sc 0]\<rparr>"

definition regular_term :: TPMatrix where
  "regular_term =
     \<lparr>mats = [\<lparr>sm = \<lparr>storage = [(0, Arr [1, 1])], shape = (2, 2), scale = 1\<rparr>,
               cls = SparseMatrix_class\<rparr>],
      space = line_space, trialspace = line_space, scale_array = Vec [Sc 1], pmat = PmatOne,
      naxes = [0], global_index = Some (0, 0), issimplified = False\<rparr>"

definition boundary_term :: TPMatrix where
  "boundary_term =
     \<lparr>mats = [\<lparr>sm = \<lparr>storage = [(0, Arr [1, 1])], shape = (2, 2), scale = 1\<rparr>,
               cls = SpectralMatrix_class ''BCDmat''
                 (\<lparr>basis_class = ''ShenDirichlet'', boundary_condition = ''Dirichlet''\<rparr>, 0)
                 (\<lparr>basis_class = ''BCDirichlet'', boundary_condition = ''Apply''\<rparr>, 0)\<rparr>],
      space = line_space, trialspace = line_space, scale_array = Vec [Sc 1], pmat = PmatOne,
      naxes = [0], global_index = Some (0, 0), issimplified = False\<rparr>"

definition zero_axes_space :: TensorProductSpace where
  "zero_axes_space =
     \<lparr>dimensions = 1, len_space = 1, get_nondiagonal_axes = [], local_slice = [(0, 2)],
      broadcast_to_ndims = (\<lambda>axis xs. Vec (map Sc xs)), bases_slice = [(0, 2)],
      Function = Vec [Sc 0, Sc 0]\<rparr>"

definition diagonal_term :: TPMatrix where
  "diagonal_term =
     \<lparr>mats = [\<lparr>sm = \<lparr>storage = [(0, Arr [2, 0])], shape = (2, 2), scale = 1\<rparr>,
               cls = SparseMatrix_class\<rparr>],
      space = zero_axes_space, trialspace = zero_axes_space, scale_array = Vec [Sc 1],
      pmat = PmatOne, naxes = [], global_index = Some (0, 0), issimplified = False\<rparr>"

definition null_collaborators :: collaborators where
  "null_collaborators =
     \<lparr>sparse_matvec = (\<lambda>m v c axis. Inr c), pencil_axis = 0, subcomms = [1],
      transfer_forward = (\<lambda>c. c), transfer_backward = (\<lambda>c. c), subshapeB_zeros = Sc 0,
      SolverGeneric1ND = (\<lambda>T b u cs. Inr u), SolverGeneric2ND = (\<lambda>T b u cs. Inr u)\<rparr>"

definition plane_space :: TensorProductSpace where
  "plane_space =
     \<lparr>dimensions = 2, len_space = 2, get_nondiagonal_axes = [1],
      local_slice = [(0, 2), (0, 3)],
      broadcast_to_ndims =
        (\<lambda>axis xs. if axis = 0 then Vec (map (\<lambda>x. Vec [Sc x]) xs) else Vec [Vec (map Sc xs)]),
      bases_slice = [(0, 2), (0, 3)],
      Function = Vec [Vec [Sc 0, Sc 0, Sc 0], Vec [Sc 0, Sc 0, Sc 0]]\<rparr>"

definition band_matrix :: axis_matrix where
  "band_matrix =
     \<lparr>sm = \<lparr>storage = [(0, Arr [1, 1, 1]), (1, Arr [7, 7])], shape = (3, 3), scale = 1\<rparr>,
      cls = SparseMatrix_class\<rparr>"

definition plane_term :: TPMatrix where
  "plane_term =
     \<lparr>mats = [\<lparr>sm = \<lparr>storage = [(0, Arr [2, 3])], shape = (2, 2), scale = 5\<rparr>,
               cls = SparseMatrix_class\<rparr>, band_matrix],
      space = plane_space, trialspace = plane_space, scale_array = Vec [Vec [Sc 1]],
      pmat = PmatOne, naxes = [1], global_index = None, issimplified = False\<rparr>"

text \<open>
  Two terms for the same operator on \<open>plane_space\<close>: the matrix of the diagonal axis is
  ten times the identity, stored as the number \<open>2\<close> with scale \<open>5\<close> and as the array
  \<open>[2, 2]\<close> with scale \<open>5\<close>.
\<close>

definition scaled_number_term :: TPMatrix where
  "scaled_number_term =
     \<lparr>mats = [\<lparr>sm = \<lparr>storage = [(0, Num 2)], shape = (2, 2), scale = 5\<rparr>,
               cls = SparseMatrix_class\<rparr>, band_matrix],
      space = plane_space, trialspace = plane_space, scale_array = Vec [Vec [Sc 1]],
      pmat = PmatOne, naxes = [1], global_index = None, issimplified = False\<rparr>"

definition scaled_array_term :: TPMatrix where
  "scaled_array_term =
     \<lparr>mats = [\<lparr>sm = \<lparr>storage = [(0, Arr [2, 2])], shape = (2, 2), scale = 5\<rparr>,
               cls = SparseMatrix_class\<rparr>, band_matrix],
      space = plane_space, trialspace = plane_space, scale_array = Vec [Vec [Sc 1]],
      pmat = PmatOne, naxes = [1], global_index = None, issimplified = False\<rparr>"

definition copying_collaborators :: collaborators where
  "copying_collaborators =
     \<lparr>sparse_matvec = (\<lambda>m v c axis. Inr v), pencil_axis = 0, subcomms = [1],
      transfer_forward = (\<lambda>c. c), transfer_backward = (\<lambda>c. c), subshapeB_zeros = Sc 0,
      SolverGeneric1ND = (\<lambda>T b u cs. Inr u), SolverGeneric2ND = (\<lambda>T b u cs. Inr u)\<rparr>"

text \<open>
  \<^verbatim>\<open>BJJmat\<close>, the mass matrix of the orthogonal Jacobi basis
  (\<^verbatim>\<open>shenfun/jacobi/matrices.py\<close>): a subclass of \<^verbatim>\<open>SpectralMatrix\<close> with the main
  diagonal only, here for two basis functions.
\<close>

definition orthogonal_basis :: basis where
  "orthogonal_basis = \<lparr>basis_class = ''Orthogonal'', boundary_condition = ''''\<rparr>"

definition mass_matrix :: axis_matrix where
  "mass_matrix =
     \<lparr>sm = \<lparr>storage = [(0, Arr [2, 2 / 3])], shape = (2, 2), scale = 1\<rparr>,
      cls = SpectralMatrix_class ''BJJmat'' (orthogonal_basis, 0) (orthogonal_basis, 0)\<rparr>"

subsection \<open>Auxiliary notions for the merge of equal terms\<close>






subsection \<open>Diagonals as objects in a store\<close>

text \<open>
  Whether two matrices share a diagonal array is not visible in the values above.
  Here the arrays live in a store (a list of arrays, an address is an index, a new
  array is appended), a stored diagonal is a number or the address of an array, and
  every operation takes the store and returns it.  \<open>value_of\<close> reads a matrix of
  this model as a value of the model above.
\<close>

type_synonym heap = "real list list"

datatype stored = Scalar real | ArrayRef nat

record SparseMatrix_object =
  obj_storage :: "(int \<times> stored) list"
  obj_shape :: "nat \<times> nat"
  obj_scale :: real

definition new_array :: "heap \<Rightarrow> real list \<Rightarrow> heap \<times> nat" where
  "new_array h xs = (h @ [xs], length h)"

definition resolve :: "heap \<Rightarrow> stored \<Rightarrow> diag" where
  "resolve h v = (case v of Scalar x \<Rightarrow> Num x | ArrayRef a \<Rightarrow> Arr (h ! a))"

definition value_of :: "heap \<Rightarrow> SparseMatrix_object \<Rightarrow> SparseMatrix" where
  "value_of h M =
     \<lparr>storage = map (\<lambda>(key, v). (key, resolve h v)) (obj_storage M),
      shape = obj_shape M, scale = obj_scale M\<rparr>"

text \<open>
  \<^verbatim>\<open>deepcopy(dict(self))\<close>: every array is copied to a new address, once per object
  (the memo of \<^verbatim>\<open>deepcopy\<close>); numbers are immutable.
\<close>

fun deepcopy_loop ::
  "heap \<Rightarrow> (nat \<times> nat) list \<Rightarrow> (int \<times> stored) list \<Rightarrow> heap \<times> (int \<times> stored) list" where
  "deepcopy_loop h memo [] = (h, [])"
| "deepcopy_loop h memo ((key, Scalar x) # items) =
     (let (h', r) = deepcopy_loop h memo items in (h', (key, Scalar x) # r))"
| "deepcopy_loop h memo ((key, ArrayRef a) # items) =
     (case map_of memo a of
        Some a' \<Rightarrow> (let (h', r) = deepcopy_loop h memo items in (h', (key, ArrayRef a') # r))
      | None \<Rightarrow>
          (let (h1, a') = new_array h (h ! a);
               (h', r) = deepcopy_loop h1 ((a, a') # memo) items
           in (h', (key, ArrayRef a') # r)))"

definition deepcopy_dict :: "heap \<Rightarrow> (int \<times> stored) list \<Rightarrow> heap \<times> (int \<times> stored) list" where
  "deepcopy_dict h items = deepcopy_loop h [] items"

text \<open>
  \<^verbatim>\<open>copy\<close>, that is \<^verbatim>\<open>SparseMatrix(deepcopy(dict(self)), self.shape, self.scale)\<close>, and
  \<^verbatim>\<open>__div__\<close> and \<^verbatim>\<open>__truediv__\<close> with a number on the store.
\<close>

definition obj_copy :: "heap \<Rightarrow> SparseMatrix_object \<Rightarrow> heap \<times> SparseMatrix_object" where
  "obj_copy h M =
     (let (h', st) = deepcopy_dict h (obj_storage M)
      in (h', \<lparr>obj_storage = st, obj_shape = obj_shape M, obj_scale = obj_scale M\<rparr>))"

definition obj_div ::
  "heap \<Rightarrow> SparseMatrix_object \<Rightarrow> real \<Rightarrow> error + (heap \<times> SparseMatrix_object)" where
  "obj_div h self y =
     (if \<bar>y\<bar> > 1 / 10 ^ 8
      then (let (h', c) = obj_copy h self in Inr (h', c\<lparr>obj_scale := obj_scale c / y\<rparr>))
      else Inl AssertionError)"

definition obj_truediv ::
  "heap \<Rightarrow> SparseMatrix_object \<Rightarrow> real \<Rightarrow> error + (heap \<times> SparseMatrix_object)" where
  "obj_truediv h self y = obj_div h self y"

text \<open>
  The addresses of the arrays of a dictionary, the dictionaries all of whose arrays are
  in the store (a Python reference always is), and the diagonals of a dictionary as
  values.
\<close>

fun arrays :: "(int \<times> stored) list \<Rightarrow> nat list" where
  "arrays [] = []"
| "arrays ((key, Scalar x) # items) = arrays items"
| "arrays ((key, ArrayRef a) # items) = a # arrays items"

definition allocated :: "heap \<Rightarrow> (int \<times> stored) list \<Rightarrow> bool" where
  "allocated h items = list_all (\<lambda>a. a < length h) (arrays items)"

definition resolve_all :: "heap \<Rightarrow> (int \<times> stored) list \<Rightarrow> (int \<times> diag) list" where
  "resolve_all h items = map (\<lambda>(key, v). (key, resolve h v)) items"

text \<open>
  \<^verbatim>\<open>incorporate_scale\<close>: \<^verbatim>\<open>self[key] = val*self.scale\<close> binds every key to a new
  array.
\<close>

fun scale_loop :: "real \<Rightarrow> heap \<Rightarrow> (int \<times> stored) list \<Rightarrow> heap \<times> (int \<times> stored) list" where
  "scale_loop s h [] = (h, [])"
| "scale_loop s h ((key, Scalar x) # items) =
     (let (h', r) = scale_loop s h items in (h', (key, Scalar (x * s)) # r))"
| "scale_loop s h ((key, ArrayRef a) # items) =
     (let (h1, a') = new_array h (map (\<lambda>x. x * s) (h ! a));
          (h', r) = scale_loop s h1 items
      in (h', (key, ArrayRef a') # r))"

definition obj_incorporate_scale ::
  "heap \<Rightarrow> SparseMatrix_object \<Rightarrow> heap \<times> SparseMatrix_object" where
  "obj_incorporate_scale h M =
     (if \<bar>obj_scale M - 1\<bar> < 1 / 10 ^ 8 then (h, M)
      else (let (h', st) = scale_loop (obj_scale M) h (obj_storage M)
            in (h', M\<lparr>obj_storage := st, obj_scale := 1\<rparr>)))"

text \<open>
\<^verbatim>\<open>f[key] + val\<close>, \<^verbatim>\<open>f[key] - val\<close> and \<^verbatim>\<open>-val\<close> make new arrays.
\<close>

definition stored_binop ::
  "(real \<Rightarrow> real \<Rightarrow> real) \<Rightarrow> heap \<Rightarrow> stored \<Rightarrow> stored \<Rightarrow> error + (heap \<times> stored)" where
  "stored_binop f h x y =
     (case broadcast2 f (resolve h x) (resolve h y) of
        Inl e \<Rightarrow> Inl e
      | Inr (Num z) \<Rightarrow> Inr (h, Scalar z)
      | Inr (Arr zs) \<Rightarrow> (let (h', a) = new_array h zs in Inr (h', ArrayRef a)))"

definition stored_neg :: "heap \<Rightarrow> stored \<Rightarrow> heap \<times> stored" where
  "stored_neg h v =
     (case v of Scalar x \<Rightarrow> (h, Scalar (- x))
      | ArrayRef a \<Rightarrow> (let (h', a') = new_array h (map uminus (h ! a)) in (h', ArrayRef a')))"

definition obj_setitem :: "SparseMatrix_object \<Rightarrow> int \<Rightarrow> stored \<Rightarrow> SparseMatrix_object" where
  "obj_setitem f key v = f\<lparr>obj_storage := AList.update key v (obj_storage f)\<rparr>"

text \<open>
  The merge loops.  For a key that \<open>f\<close> does not store, \<^verbatim>\<open>__add__\<close> has
  \<^verbatim>\<open>f[key] = val\<close>, the very object stored in \<open>d\<close>, and \<^verbatim>\<open>__sub__\<close> has
  \<^verbatim>\<open>f[key] = -val\<close>, a new array.
\<close>

fun obj_add_loop ::
  "heap \<Rightarrow> SparseMatrix_object \<Rightarrow> (int \<times> stored) list \<Rightarrow> error + (heap \<times> SparseMatrix_object)" where
  "obj_add_loop h f [] = Inr (h, f)"
| "obj_add_loop h f ((key, val) # items) =
     (case map_of (obj_storage f) key of
        Some x \<Rightarrow> (case stored_binop (+) h x val of Inl e \<Rightarrow> Inl e
                   | Inr (h', s) \<Rightarrow> obj_add_loop h' (obj_setitem f key s) items)
      | None \<Rightarrow> obj_add_loop h (obj_setitem f key val) items)"

fun obj_sub_loop ::
  "heap \<Rightarrow> SparseMatrix_object \<Rightarrow> (int \<times> stored) list \<Rightarrow> error + (heap \<times> SparseMatrix_object)" where
  "obj_sub_loop h f [] = Inr (h, f)"
| "obj_sub_loop h f ((key, val) # items) =
     (case map_of (obj_storage f) key of
        Some x \<Rightarrow> (case stored_binop (-) h x val of Inl e \<Rightarrow> Inl e
                   | Inr (h', s) \<Rightarrow> obj_sub_loop h' (obj_setitem f key s) items)
      | None \<Rightarrow> (let (h', v) = stored_neg h val in obj_sub_loop h' (obj_setitem f key v) items))"

text \<open>
\<^verbatim>\<open>__add__\<close> and \<^verbatim>\<open>__sub__\<close> on the store; \<^verbatim>\<open>self.copy()\<close> is a deep copy.
\<close>

definition obj_add ::
  "heap \<Rightarrow> SparseMatrix_object \<Rightarrow> SparseMatrix_object
   \<Rightarrow> error + (heap \<times> SparseMatrix_object \<times> SparseMatrix_object)" where
  "obj_add h self d =
     (if \<bar>obj_scale self\<bar> < 1 / 10 ^ 15 \<and> \<bar>obj_scale d\<bar> < 1 / 10 ^ 15 then
        Inr (h, \<lparr>obj_storage = [(0, Scalar 0)], obj_shape = obj_shape self, obj_scale = 1\<rparr>, d)
      else if \<bar>obj_scale self\<bar> < 1 / 10 ^ 15 then
        (let (h', st) = deepcopy_dict h (obj_storage d)
         in Inr (h', \<lparr>obj_storage = st, obj_shape = obj_shape d, obj_scale = obj_scale d\<rparr>, d))
      else if \<bar>obj_scale d\<bar> < 1 / 10 ^ 15 then
        (let (h', st) = deepcopy_dict h (obj_storage self)
         in Inr (h', \<lparr>obj_storage = st, obj_shape = obj_shape self, obj_scale = obj_scale self\<rparr>, d))
      else
        (let (h1, st) = deepcopy_dict h (obj_storage self);
             (h2, f) = obj_incorporate_scale h1
                         \<lparr>obj_storage = st, obj_shape = obj_shape self, obj_scale = obj_scale self\<rparr>;
             (h3, d') = obj_incorporate_scale h2 d
         in case obj_add_loop h3 f (obj_storage d') of Inl e \<Rightarrow> Inl e
            | Inr (h4, f') \<Rightarrow> Inr (h4, f', d')))"

definition obj_sub ::
  "heap \<Rightarrow> SparseMatrix_object \<Rightarrow> SparseMatrix_object
   \<Rightarrow> error + (heap \<times> SparseMatrix_object \<times> SparseMatrix_object)" where
  "obj_sub h self d =
     (if \<bar>obj_scale self\<bar> < 1 / 10 ^ 15 \<and> \<bar>obj_scale d\<bar> < 1 / 10 ^ 15 then
        Inr (h, \<lparr>obj_storage = [(0, Scalar 0)], obj_shape = obj_shape self, obj_scale = 1\<rparr>, d)
      else if \<bar>obj_scale self\<bar> < 1 / 10 ^ 15 then
        (let (h', st) = deepcopy_dict h (obj_storage d)
         in Inr (h', \<lparr>obj_storage = st, obj_shape = obj_shape d, obj_scale = - obj_scale d\<rparr>, d))
      else if \<bar>obj_scale d\<bar> < 1 / 10 ^ 15 then
        (let (h', st) = deepcopy_dict h (obj_storage self)
         in Inr (h', \<lparr>obj_storage = st, obj_shape = obj_shape self, obj_scale = obj_scale self\<rparr>, d))
      else
        (let (h1, st) = deepcopy_dict h (obj_storage self);
             (h2, f) = obj_incorporate_scale h1
                         \<lparr>obj_storage = st, obj_shape = obj_shape self, obj_scale = obj_scale self\<rparr>;
             (h3, d') = obj_incorporate_scale h2 d
         in case obj_sub_loop h3 f (obj_storage d') of Inl e \<Rightarrow> Inl e
            | Inr (h4, f') \<Rightarrow> Inr (h4, f', d')))"

text \<open>
The assignment \<^verbatim>\<open>C[key][i] = x\<close> to an entry of a stored array.
\<close>

definition array_setitem :: "heap \<Rightarrow> nat \<Rightarrow> nat \<Rightarrow> real \<Rightarrow> heap" where
  "array_setitem h a i x = h[a := (h ! a)[i := x]]"

section \<open>The store refines the values\<close>

text \<open>
  Every operation on the store appends arrays and changes none, and read through
  \<open>value_of\<close> it computes what the operation on values computes.
\<close>

lemma resolve_all_append:
  "list_all (\<lambda>a. a < length h) (arrays items) \<Longrightarrow>
   resolve_all (h @ ext) items = resolve_all h items"
  by (induction items rule: arrays.induct) (simp_all add: resolve_all_def resolve_def nth_append)

lemma deepcopy_loop_spec:
  assumes "deepcopy_loop h memo items = (h', r)"
    and "list_all (\<lambda>a. a < length h) (arrays items)"
    and "\<forall>(a, a') \<in> set memo. a < length h \<and> a' < length h \<and> h ! a' = h ! a"
  shows "(\<exists>ext. h' = h @ ext) \<and> resolve_all h' r = resolve_all h items \<and>
         (\<forall>a' \<in> set (arrays r). a' \<in> snd ` set memo \<or> (length h \<le> a' \<and> a' < length h'))"
  using assms
proof (induction items arbitrary: h memo h' r rule: arrays.induct)
  case 1
  then show ?case by (simp add: resolve_all_def)
next
  case (2 key x items)
  obtain h0 r0 where t: "deepcopy_loop h memo items = (h0, r0)" by fastforce
  from 2(2) t have hr: "h' = h0" "r = (key, Scalar x) # r0"
    by simp_all
  have rest: "list_all (\<lambda>a. a < length h) (arrays items)"
    using 2(3) by simp
  from 2(1) [OF t rest 2(4)]
  obtain ext where ext: "h0 = h @ ext"
    and val: "resolve_all h0 r0 = resolve_all h items"
    and adr: "\<forall>a' \<in> set (arrays r0). a' \<in> snd ` set memo \<or> (length h \<le> a' \<and> a' < length h0)"
    by blast
  show ?case
    unfolding hr using ext val adr by (simp add: resolve_all_def resolve_def)
next
  case (3 key a items)
  show ?case
  proof (cases "map_of memo a")
    case None
    obtain h0 r0 where t: "deepcopy_loop (h @ [h ! a]) ((a, length h) # memo) items = (h0, r0)"
      by fastforce
    from 3(2) None t have hr: "h' = h0" "r = (key, ArrayRef (length h)) # r0"
      by (simp_all add: new_array_def)
    have a: "a < length h" and rest: "list_all (\<lambda>a. a < length h) (arrays items)"
      using 3(3) by simp_all
    have rest1: "list_all (\<lambda>b. b < length (h @ [h ! a])) (arrays items)"
      using rest by (simp add: list_all_iff less_Suc_eq)
    have memo1: "\<forall>(b, b') \<in> set ((a, length h) # memo).
                   b < length (h @ [h ! a]) \<and> b' < length (h @ [h ! a]) \<and>
                   (h @ [h ! a]) ! b' = (h @ [h ! a]) ! b"
      using 3(4) a by (auto simp add: nth_append)
    from 3(1) [OF t rest1 memo1]
    obtain ext where ext: "h0 = (h @ [h ! a]) @ ext"
      and val: "resolve_all h0 r0 = resolve_all (h @ [h ! a]) items"
      and adr: "\<forall>a' \<in> set (arrays r0). a' \<in> snd ` set ((a, length h) # memo) \<or>
                  (length (h @ [h ! a]) \<le> a' \<and> a' < length h0)"
      by blast
    have "resolve_all h0 r0 = resolve_all h items"
      using val resolve_all_append [OF rest] by simp
    moreover have "h0 ! length h = h ! a"
      using ext by (simp add: nth_append)
    moreover have "\<exists>ext. h0 = h @ ext" using ext by simp
    moreover have "\<forall>a' \<in> set (arrays r0). a' \<in> snd ` set memo \<or> (length h \<le> a' \<and> a' < length h0)"
      using adr ext by auto
    moreover have "length h < length h0" using ext by simp
    ultimately show ?thesis
      unfolding hr by (simp add: resolve_all_def resolve_def)
  next
    case (Some a')
    obtain h0 r0 where t: "deepcopy_loop h memo items = (h0, r0)" by fastforce
    from 3(2) Some t have hr: "h' = h0" "r = (key, ArrayRef a') # r0"
      by simp_all
    have mem: "(a, a') \<in> set memo" using Some by (rule map_of_SomeD)
    then have a': "a' < length h" "h ! a' = h ! a" using 3(4) by auto
    have rest: "list_all (\<lambda>a. a < length h) (arrays items)"
      using 3(3) by simp
    from 3(1) [OF t rest 3(4)]
    obtain ext where ext: "h0 = h @ ext"
      and val: "resolve_all h0 r0 = resolve_all h items"
      and adr: "\<forall>a' \<in> set (arrays r0). a' \<in> snd ` set memo \<or> (length h \<le> a' \<and> a' < length h0)"
      by blast
    have "h0 ! a' = h ! a" using ext a' by (simp add: nth_append)
    moreover have "a' \<in> snd ` set memo" using mem by force
    ultimately show ?thesis
      unfolding hr using ext val adr by (simp add: resolve_all_def resolve_def)
  qed
qed


lemma value_of_resolve_all:
  "value_of h M = \<lparr>storage = resolve_all h (obj_storage M), shape = obj_shape M, scale = obj_scale M\<rparr>"
  by (simp add: value_of_def resolve_all_def)

lemma allocated_simps [simp]:
  "allocated h []"
  "allocated h ((key, Scalar x) # items) = allocated h items"
  "allocated h ((key, ArrayRef a) # items) = (a < length h \<and> allocated h items)"
  by (simp_all add: allocated_def)

lemma allocated_append: "allocated h items \<Longrightarrow> allocated (h @ ext) items"
  by (induction items rule: arrays.induct) simp_all

lemma resolve_all_ext: "allocated h items \<Longrightarrow> resolve_all (h @ ext) items = resolve_all h items"
  unfolding allocated_def by (rule resolve_all_append)

lemma value_of_ext: "allocated h (obj_storage M) \<Longrightarrow> value_of (h @ ext) M = value_of h M"
  by (simp add: value_of_resolve_all resolve_all_ext)

lemma scale_loop_spec:
  assumes "scale_loop s h items = (h', r)" and "allocated h items"
  shows "(\<exists>ext. h' = h @ ext) \<and>
         resolve_all h' r = map (\<lambda>(key, val). (key, diag_map (\<lambda>x. x * s) val)) (resolve_all h items) \<and>
         allocated h' r"
  using assms
proof (induction items arbitrary: h h' r rule: arrays.induct)
  case 1
  then show ?case by (simp add: resolve_all_def)
next
  case (2 key x items)
  obtain h0 r0 where t: "scale_loop s h items = (h0, r0)" by fastforce
  from 2(2) t have hr: "h' = h0" "r = (key, Scalar (x * s)) # r0" by simp_all
  from 2(1) [OF t] 2(3) show ?case
    unfolding hr by (simp add: resolve_all_def resolve_def)
next
  case (3 key a items)
  let ?h1 = "h @ [map (\<lambda>x. x * s) (h ! a)]"
  obtain h0 r0 where t: "scale_loop s ?h1 items = (h0, r0)" by fastforce
  from 3(2) t have hr: "h' = h0" "r = (key, ArrayRef (length h)) # r0"
    by (simp_all add: new_array_def)
  have a: "a < length h" and rest: "allocated h items" using 3(3) by simp_all
  from 3(1) [OF t allocated_append [OF rest]]
  obtain ext where ext: "h0 = ?h1 @ ext"
    and val: "resolve_all h0 r0 =
              map (\<lambda>(key, val). (key, diag_map (\<lambda>x. x * s) val)) (resolve_all ?h1 items)"
    and al: "allocated h0 r0"
    by blast
  have "h0 ! length h = map (\<lambda>x. x * s) (h ! a)" using ext by (simp add: nth_append)
  moreover have "length h < length h0" using ext by simp
  moreover have "\<exists>ext. h0 = h @ ext" using ext by simp
  ultimately show ?case
    unfolding hr using val al resolve_all_ext [OF rest]
    by (simp add: resolve_all_def resolve_def)
qed

lemma obj_incorporate_scale_spec:
  assumes "obj_incorporate_scale h M = (h', M')" and "allocated h (obj_storage M)"
  shows "(\<exists>ext. h' = h @ ext) \<and> value_of h' M' = incorporate_scale (value_of h M) \<and>
         allocated h' (obj_storage M')"
proof (cases "\<bar>obj_scale M - 1\<bar> < 1 / 10 ^ 8")
  case True
  with assms show ?thesis
    by (auto simp add: obj_incorporate_scale_def incorporate_scale_def value_of_def)
next
  case False
  obtain h0 r0 where t: "scale_loop (obj_scale M) h (obj_storage M) = (h0, r0)" by fastforce
  from assms(1) False t have hr: "h' = h0" "M' = M\<lparr>obj_storage := r0, obj_scale := 1\<rparr>"
    by (simp_all add: obj_incorporate_scale_def)
  from scale_loop_spec [OF t assms(2)] False show ?thesis
    unfolding hr by (simp add: value_of_resolve_all incorporate_scale_def)
qed

lemma map_of_resolve_all:
  "map_of (resolve_all h items) key = map_option (resolve h) (map_of items key)"
  by (induction items) (auto simp add: resolve_all_def)

lemma resolve_all_update:
  "resolve_all h (AList.update key v items) = AList.update key (resolve h v) (resolve_all h items)"
  by (induction items) (auto simp add: resolve_all_def)

lemma value_of_setitem:
  "value_of h (obj_setitem f key v) = setitem (value_of h f) key (resolve h v)"
  by (simp add: value_of_resolve_all obj_setitem_def setitem_def resolve_all_update)

lemma allocated_iff:
  "allocated h items \<longleftrightarrow> (\<forall>(key, v) \<in> set items. \<forall>a. v = ArrayRef a \<longrightarrow> a < length h)"
  by (induction items rule: arrays.induct) auto

lemma allocated_update:
  assumes "allocated h items" and "\<And>a. v = ArrayRef a \<Longrightarrow> a < length h"
  shows "allocated h (AList.update key v items)"
  using assms by (induction items) (auto simp add: allocated_iff)

lemma allocated_map_of:
  "allocated h items \<Longrightarrow> map_of items key = Some (ArrayRef a) \<Longrightarrow> a < length h"
  by (auto simp add: allocated_iff dest!: map_of_SomeD)

lemma resolve_ext:
  "(\<And>a. v = ArrayRef a \<Longrightarrow> a < length h) \<Longrightarrow> resolve (h @ ext) v = resolve h v"
  by (cases v) (simp_all add: resolve_def nth_append)

lemma stored_binop_spec:
  "case broadcast2 g (resolve h x) (resolve h y) of
     Inl e \<Rightarrow> stored_binop g h x y = Inl e
   | Inr z \<Rightarrow> (\<exists>h' v. stored_binop g h x y = Inr (h', v) \<and> (\<exists>ext. h' = h @ ext) \<and>
                 resolve h' v = z \<and> (\<forall>a. v = ArrayRef a \<longrightarrow> a < length h'))"
  by (auto simp add: stored_binop_def new_array_def resolve_def split: sum.splits diag.splits)

lemma stored_neg_spec:
  assumes "\<And>a. v = ArrayRef a \<Longrightarrow> a < length h"
  shows "\<exists>h' w. stored_neg h v = (h', w) \<and> (\<exists>ext. h' = h @ ext) \<and>
           resolve h' w = diag_map uminus (resolve h v) \<and> (\<forall>a. w = ArrayRef a \<longrightarrow> a < length h')"
  by (cases v) (simp_all add: stored_neg_def new_array_def resolve_def)


lemma obj_add_loop_spec:
  assumes "allocated h (obj_storage f)" and "allocated h items"
  shows "case obj_add_loop h f items of
           Inl e \<Rightarrow> add_loop (value_of h f) (resolve_all h items) = Inl e
         | Inr (h', f') \<Rightarrow>
             (\<exists>ext. h' = h @ ext) \<and>
             add_loop (value_of h f) (resolve_all h items) = Inr (value_of h' f') \<and>
             allocated h' (obj_storage f')"
  using assms
proof (induction items arbitrary: h f)
  case Nil
  then show ?case by (simp add: resolve_all_def)
next
  case (Cons item items)
  obtain key val where item: "item = (key, val)" by (cases item)
  have val: "\<And>a. val = ArrayRef a \<Longrightarrow> a < length h" and rest: "allocated h items"
    using Cons(3) by (auto simp add: item allocated_iff)
  have ra: "resolve_all h ((key, val) # items) = (key, resolve h val) # resolve_all h items"
    by (simp add: resolve_all_def)
  have look: "map_of (storage (value_of h f)) key = map_option (resolve h) (map_of (obj_storage f) key)"
    by (simp add: value_of_resolve_all map_of_resolve_all)
  show ?case
  proof (cases "map_of (obj_storage f) key")
    case None
    have al1: "allocated h (obj_storage (obj_setitem f key val))"
      unfolding obj_setitem_def using Cons(2) val by (simp add: allocated_update)
    from Cons(1) [OF al1 rest] show ?thesis
      using None look by (auto simp add: item ra value_of_setitem split: sum.splits)
  next
    case (Some x)
    have x: "\<And>a. x = ArrayRef a \<Longrightarrow> a < length h"
      using allocated_map_of [OF Cons(2)] Some by simp
    show ?thesis
    proof (cases "broadcast2 (+) (resolve h x) (resolve h val)")
      case (Inl e)
      with stored_binop_spec [of "(+)" h x val] have "stored_binop (+) h x val = Inl e"
        by simp
      then show ?thesis
        using Some Inl look by (simp add: item ra)
    next
      case (Inr z)
      with stored_binop_spec [of "(+)" h x val] obtain h1 v ext1 where
        sb: "stored_binop (+) h x val = Inr (h1, v)" and h1: "h1 = h @ ext1"
        and rv: "resolve h1 v = z" and v: "\<And>a. v = ArrayRef a \<Longrightarrow> a < length h1"
        by auto
      have al1: "allocated h1 (obj_storage (obj_setitem f key v))"
        unfolding obj_setitem_def using allocated_append [OF Cons(2), of ext1] v
        by (simp add: allocated_update h1)
      have rest1: "allocated h1 items"
        unfolding h1 using rest by (rule allocated_append)
      have v1: "value_of h1 (obj_setitem f key v) = setitem (value_of h f) key z"
        using value_of_ext [OF Cons(2), of ext1] rv by (simp add: value_of_setitem h1)
      have r1: "resolve_all h1 items = resolve_all h items"
        unfolding h1 using rest by (rule resolve_all_ext)
      from Cons(1) [OF al1 rest1] show ?thesis
        using Some Inr look sb
        by (auto simp add: item ra v1 [unfolded h1] r1 [unfolded h1] h1 split: sum.splits)
    qed
  qed
qed

lemma obj_sub_loop_spec:
  assumes "allocated h (obj_storage f)" and "allocated h items"
  shows "case obj_sub_loop h f items of
           Inl e \<Rightarrow> sub_loop (value_of h f) (resolve_all h items) = Inl e
         | Inr (h', f') \<Rightarrow>
             (\<exists>ext. h' = h @ ext) \<and>
             sub_loop (value_of h f) (resolve_all h items) = Inr (value_of h' f') \<and>
             allocated h' (obj_storage f')"
  using assms
proof (induction items arbitrary: h f)
  case Nil
  then show ?case by (simp add: resolve_all_def)
next
  case (Cons item items)
  obtain key val where item: "item = (key, val)" by (cases item)
  have val: "\<And>a. val = ArrayRef a \<Longrightarrow> a < length h" and rest: "allocated h items"
    using Cons(3) by (auto simp add: item allocated_iff)
  have ra: "resolve_all h ((key, val) # items) = (key, resolve h val) # resolve_all h items"
    by (simp add: resolve_all_def)
  have look: "map_of (storage (value_of h f)) key = map_option (resolve h) (map_of (obj_storage f) key)"
    by (simp add: value_of_resolve_all map_of_resolve_all)
  show ?case
  proof (cases "map_of (obj_storage f) key")
    case None
    from stored_neg_spec [of val h] val obtain h1 w ext1 where
      sn: "stored_neg h val = (h1, w)" and h1: "h1 = h @ ext1"
      and rw: "resolve h1 w = diag_map uminus (resolve h val)"
      and w: "\<And>a. w = ArrayRef a \<Longrightarrow> a < length h1"
      by blast
    have al1: "allocated h1 (obj_storage (obj_setitem f key w))"
      unfolding obj_setitem_def using allocated_append [OF Cons(2), of ext1] w
      by (simp add: allocated_update h1)
    have rest1: "allocated h1 items"
      unfolding h1 using rest by (rule allocated_append)
    have v1: "value_of h1 (obj_setitem f key w) =
              setitem (value_of h f) key (diag_map uminus (resolve h val))"
      using value_of_ext [OF Cons(2), of ext1] rw by (simp add: value_of_setitem h1)
    have r1: "resolve_all h1 items = resolve_all h items"
      unfolding h1 using rest by (rule resolve_all_ext)
    from Cons(1) [OF al1 rest1] show ?thesis
      using None look sn
      by (auto simp add: item ra v1 [unfolded h1] r1 [unfolded h1] h1 split: sum.splits)
  next
    case (Some x)
    have x: "\<And>a. x = ArrayRef a \<Longrightarrow> a < length h"
      using allocated_map_of [OF Cons(2)] Some by simp
    show ?thesis
    proof (cases "broadcast2 (-) (resolve h x) (resolve h val)")
      case (Inl e)
      with stored_binop_spec [of "(-)" h x val] have "stored_binop (-) h x val = Inl e"
        by simp
      then show ?thesis
        using Some Inl look by (simp add: item ra)
    next
      case (Inr z)
      with stored_binop_spec [of "(-)" h x val] obtain h1 v ext1 where
        sb: "stored_binop (-) h x val = Inr (h1, v)" and h1: "h1 = h @ ext1"
        and rv: "resolve h1 v = z" and v: "\<And>a. v = ArrayRef a \<Longrightarrow> a < length h1"
        by auto
      have al1: "allocated h1 (obj_storage (obj_setitem f key v))"
        unfolding obj_setitem_def using allocated_append [OF Cons(2), of ext1] v
        by (simp add: allocated_update h1)
      have rest1: "allocated h1 items"
        unfolding h1 using rest by (rule allocated_append)
      have v1: "value_of h1 (obj_setitem f key v) = setitem (value_of h f) key z"
        using value_of_ext [OF Cons(2), of ext1] rv by (simp add: value_of_setitem h1)
      have r1: "resolve_all h1 items = resolve_all h items"
        unfolding h1 using rest by (rule resolve_all_ext)
      from Cons(1) [OF al1 rest1] show ?thesis
        using Some Inr look sb
        by (auto simp add: item ra v1 [unfolded h1] r1 [unfolded h1] h1 split: sum.splits)
    qed
  qed
qed


lemma deepcopy_dict_spec:
  assumes "deepcopy_dict h items = (h', r)" and "allocated h items"
  shows "(\<exists>ext. h' = h @ ext) \<and> resolve_all h' r = resolve_all h items \<and> allocated h' r"
  using deepcopy_loop_spec [of h "[]" items h' r] assms
  by (simp add: deepcopy_dict_def allocated_def list_all_iff)

text \<open>
  A copy has the diagonals, shape and scale of the original, and all its arrays are new.
\<close>

lemma obj_copy_spec:
  assumes "allocated h (obj_storage M)"
  shows "\<exists>h' C. obj_copy h M = (h', C) \<and> (\<exists>ext. h' = h @ ext) \<and>
           value_of h' C = copy (value_of h M) \<and>
           list_all (\<lambda>a. length h \<le> a \<and> a < length h') (arrays (obj_storage C))"
proof -
  obtain h' r where t: "deepcopy_loop h [] (obj_storage M) = (h', r)" by fastforce
  from deepcopy_loop_spec [OF t assms [unfolded allocated_def]] have
    "(\<exists>ext. h' = h @ ext) \<and> resolve_all h' r = resolve_all h (obj_storage M) \<and>
     (\<forall>a' \<in> set (arrays r). length h \<le> a' \<and> a' < length h')"
    by simp
  then show ?thesis
    using t by (simp add: obj_copy_def deepcopy_dict_def value_of_resolve_all copy_def list_all_iff)
qed

text \<open>
  \<^verbatim>\<open>__add__\<close> and \<^verbatim>\<open>__sub__\<close> on the store return, or raise, what they do on values;
  the arrays that existed before the call are as they were.
\<close>

lemma obj_add_refines:
  assumes A: "allocated h (obj_storage A)" and B: "allocated h (obj_storage B)"
  shows "case obj_add h A B of
           Inl e \<Rightarrow> SparseMatrix_add (value_of h A) (value_of h B) = Inl e
         | Inr (h', C, B') \<Rightarrow>
             SparseMatrix_add (value_of h A) (value_of h B) = Inr (value_of h' C, value_of h' B') \<and>
             (\<exists>ext. h' = h @ ext)"
proof -
  obtain hB stB where cB: "deepcopy_dict h (obj_storage B) = (hB, stB)" by fastforce
  from deepcopy_dict_spec [OF cB B] obtain extB where
    hB: "hB = h @ extB" and vB: "resolve_all hB stB = resolve_all h (obj_storage B)"
    by blast
  obtain h1 st where cA: "deepcopy_dict h (obj_storage A) = (h1, st)" by fastforce
  from deepcopy_dict_spec [OF cA A] obtain ext1 where
    h1: "h1 = h @ ext1" and vA: "resolve_all h1 st = resolve_all h (obj_storage A)"
    and alA: "allocated h1 st"
    by blast
  let ?f0 = "\<lparr>obj_storage = st, obj_shape = obj_shape A, obj_scale = obj_scale A\<rparr>"
  obtain h2 f where iA: "obj_incorporate_scale h1 ?f0 = (h2, f)" by fastforce
  from obj_incorporate_scale_spec [OF iA] alA obtain ext2 where
    h2: "h2 = h1 @ ext2" and vf: "value_of h2 f = incorporate_scale (value_of h1 ?f0)"
    and alf: "allocated h2 (obj_storage f)"
    by auto
  have B2: "allocated h2 (obj_storage B)"
    unfolding h2 h1 using B by (intro allocated_append)
  obtain h3 d' where iB: "obj_incorporate_scale h2 B = (h3, d')" by fastforce
  from obj_incorporate_scale_spec [OF iB B2] obtain ext3 where
    h3: "h3 = h2 @ ext3" and vd: "value_of h3 d' = incorporate_scale (value_of h2 B)"
    and ald: "allocated h3 (obj_storage d')"
    by auto
  have vB2: "value_of h2 B = value_of h B"
    unfolding h2 h1 using B by (simp add: value_of_ext allocated_append)
  have vf0: "value_of h1 ?f0 =
             \<lparr>storage = storage (value_of h A), shape = shape (value_of h A),
                scale = obj_scale A\<rparr>"
    using vA by (simp add: value_of_resolve_all)
  have alf3: "allocated h3 (obj_storage f)"
    unfolding h3 using alf by (rule allocated_append)
  have vf3: "value_of h3 f = value_of h2 f"
    unfolding h3 using alf by (rule value_of_ext)
  have items: "resolve_all h3 (obj_storage d') = storage (value_of h3 d')"
    by (simp add: value_of_resolve_all)
  have ext: "\<And>e. \<exists>ext. h3 @ e = h @ ext"
    by (simp add: h3 h2 h1)
  have vd4: "\<And>e. value_of (h3 @ e) d' = value_of h3 d'"
    using ald by (rule value_of_ext)
  have sc: "obj_scale A = scale (value_of h A)" "obj_scale B = scale (value_of h B)"
    by (simp_all add: value_of_def)
  have vBh: "\<And>e. value_of (h @ e) B = value_of h B"
    using B by (rule value_of_ext)
  have zero: "\<And>g s c. value_of g \<lparr>obj_storage = [(0, Scalar 0)], obj_shape = s, obj_scale = c\<rparr> =
                \<lparr>storage = [(0, Num 0)], shape = s, scale = c\<rparr>"
    by (simp add: value_of_def resolve_def)
  have cpA: "\<And>s c. value_of (h @ ext1) \<lparr>obj_storage = st, obj_shape = s, obj_scale = c\<rparr> =
               \<lparr>storage = storage (value_of h A), shape = s, scale = c\<rparr>"
    using vA by (simp add: value_of_resolve_all h1)
  have cpB: "\<And>s c. value_of (h @ extB) \<lparr>obj_storage = stB, obj_shape = s, obj_scale = c\<rparr> =
               \<lparr>storage = storage (value_of h B), shape = s, scale = c\<rparr>"
    using vB by (simp add: value_of_resolve_all hB)
  have sh: "obj_shape A = shape (value_of h A)" "obj_shape B = shape (value_of h B)"
    by (simp_all add: value_of_def)
  have small: "\<bar>obj_scale A\<bar> < 1 / 10 ^ 15 \<or> \<bar>obj_scale B\<bar> < 1 / 10 ^ 15 \<Longrightarrow> ?thesis"
    using cA [unfolded h1] cB [unfolded hB]
    by (auto simp add: obj_add_def SparseMatrix_add_def vBh zero cpA cpB copy_def sc [symmetric] sh [symmetric])
  have big: "\<not> \<bar>obj_scale A\<bar> < 1 / 10 ^ 15 \<Longrightarrow> \<not> \<bar>obj_scale B\<bar> < 1 / 10 ^ 15 \<Longrightarrow> ?thesis"
    using obj_add_loop_spec [OF alf3 ald] cA iA iB
    by (auto simp add: obj_add_def SparseMatrix_add_def sc [symmetric] vf3 vf vf0 items vd vB2 vd4 ext Let_def
          split: sum.splits)
  from small big show ?thesis by blast
qed

lemma obj_sub_refines:
  assumes A: "allocated h (obj_storage A)" and B: "allocated h (obj_storage B)"
  shows "case obj_sub h A B of
           Inl e \<Rightarrow> SparseMatrix_sub (value_of h A) (value_of h B) = Inl e
         | Inr (h', C, B') \<Rightarrow>
             SparseMatrix_sub (value_of h A) (value_of h B) = Inr (value_of h' C, value_of h' B') \<and>
             (\<exists>ext. h' = h @ ext)"
proof -
  obtain hB stB where cB: "deepcopy_dict h (obj_storage B) = (hB, stB)" by fastforce
  from deepcopy_dict_spec [OF cB B] obtain extB where
    hB: "hB = h @ extB" and vB: "resolve_all hB stB = resolve_all h (obj_storage B)"
    by blast
  obtain h1 st where cA: "deepcopy_dict h (obj_storage A) = (h1, st)" by fastforce
  from deepcopy_dict_spec [OF cA A] obtain ext1 where
    h1: "h1 = h @ ext1" and vA: "resolve_all h1 st = resolve_all h (obj_storage A)"
    and alA: "allocated h1 st"
    by blast
  let ?f0 = "\<lparr>obj_storage = st, obj_shape = obj_shape A, obj_scale = obj_scale A\<rparr>"
  obtain h2 f where iA: "obj_incorporate_scale h1 ?f0 = (h2, f)" by fastforce
  from obj_incorporate_scale_spec [OF iA] alA obtain ext2 where
    h2: "h2 = h1 @ ext2" and vf: "value_of h2 f = incorporate_scale (value_of h1 ?f0)"
    and alf: "allocated h2 (obj_storage f)"
    by auto
  have B2: "allocated h2 (obj_storage B)"
    unfolding h2 h1 using B by (intro allocated_append)
  obtain h3 d' where iB: "obj_incorporate_scale h2 B = (h3, d')" by fastforce
  from obj_incorporate_scale_spec [OF iB B2] obtain ext3 where
    h3: "h3 = h2 @ ext3" and vd: "value_of h3 d' = incorporate_scale (value_of h2 B)"
    and ald: "allocated h3 (obj_storage d')"
    by auto
  have vB2: "value_of h2 B = value_of h B"
    unfolding h2 h1 using B by (simp add: value_of_ext allocated_append)
  have vf0: "value_of h1 ?f0 =
             \<lparr>storage = storage (value_of h A), shape = shape (value_of h A),
                scale = obj_scale A\<rparr>"
    using vA by (simp add: value_of_resolve_all)
  have alf3: "allocated h3 (obj_storage f)"
    unfolding h3 using alf by (rule allocated_append)
  have vf3: "value_of h3 f = value_of h2 f"
    unfolding h3 using alf by (rule value_of_ext)
  have items: "resolve_all h3 (obj_storage d') = storage (value_of h3 d')"
    by (simp add: value_of_resolve_all)
  have ext: "\<And>e. \<exists>ext. h3 @ e = h @ ext"
    by (simp add: h3 h2 h1)
  have vd4: "\<And>e. value_of (h3 @ e) d' = value_of h3 d'"
    using ald by (rule value_of_ext)
  have sc: "obj_scale A = scale (value_of h A)" "obj_scale B = scale (value_of h B)"
    by (simp_all add: value_of_def)
  have vBh: "\<And>e. value_of (h @ e) B = value_of h B"
    using B by (rule value_of_ext)
  have zero: "\<And>g s c. value_of g \<lparr>obj_storage = [(0, Scalar 0)], obj_shape = s, obj_scale = c\<rparr> =
                \<lparr>storage = [(0, Num 0)], shape = s, scale = c\<rparr>"
    by (simp add: value_of_def resolve_def)
  have cpA: "\<And>s c. value_of (h @ ext1) \<lparr>obj_storage = st, obj_shape = s, obj_scale = c\<rparr> =
               \<lparr>storage = storage (value_of h A), shape = s, scale = c\<rparr>"
    using vA by (simp add: value_of_resolve_all h1)
  have cpB: "\<And>s c. value_of (h @ extB) \<lparr>obj_storage = stB, obj_shape = s, obj_scale = c\<rparr> =
               \<lparr>storage = storage (value_of h B), shape = s, scale = c\<rparr>"
    using vB by (simp add: value_of_resolve_all hB)
  have sh: "obj_shape A = shape (value_of h A)" "obj_shape B = shape (value_of h B)"
    by (simp_all add: value_of_def)
  have small: "\<bar>obj_scale A\<bar> < 1 / 10 ^ 15 \<or> \<bar>obj_scale B\<bar> < 1 / 10 ^ 15 \<Longrightarrow> ?thesis"
    using cA [unfolded h1] cB [unfolded hB]
    by (auto simp add: obj_sub_def SparseMatrix_sub_def vBh zero cpA cpB copy_def sc [symmetric] sh [symmetric])
  have big: "\<not> \<bar>obj_scale A\<bar> < 1 / 10 ^ 15 \<Longrightarrow> \<not> \<bar>obj_scale B\<bar> < 1 / 10 ^ 15 \<Longrightarrow> ?thesis"
    using obj_sub_loop_spec [OF alf3 ald] cA iA iB
    by (auto simp add: obj_sub_def SparseMatrix_sub_def sc [symmetric] vf3 vf vf0 items vd vB2 vd4 ext Let_def
          split: sum.splits)
  from small big show ?thesis by blast
qed

section \<open>Scalar division\<close>

text \<open>
  C8.  Dividing a SparseMatrix by a number of absolute value below \<^verbatim>\<open>1e-8\<close> fails
  with the assertion error; dividing by a number of absolute value above \<^verbatim>\<open>1e-8\<close>
  succeeds and returns a new matrix with the diagonals and shape of the receiver and
  its scale divided by the number.  The receiver is left unchanged: the arrays of the
  store are as before the call, and every array of the result is a new one.
\<close>

theorem truediv_domain:
  assumes "allocated h (obj_storage A)"
  shows "(\<bar>y\<bar> < 1 / 10 ^ 8 \<longrightarrow> obj_truediv h A y = Inl AssertionError) \<and>
         (\<bar>y\<bar> > 1 / 10 ^ 8 \<longrightarrow>
            (\<exists>h' C. obj_truediv h A y = Inr (h', C) \<and>
               SparseMatrix_truediv (value_of h A) y = Inr (value_of h' C) \<and>
               value_of h' C =
                 \<lparr>storage = storage (value_of h A), shape = obj_shape A, scale = obj_scale A / y\<rparr> \<and>
               take (length h) h' = h \<and>
               list_all (\<lambda>a. length h \<le> a \<and> a < length h') (arrays (obj_storage C))))"
proof -
  from obj_copy_spec [OF assms] obtain h' C ext where
    c: "obj_copy h A = (h', C)" and ext: "h' = h @ ext"
    and v: "value_of h' C = copy (value_of h A)"
    and new: "list_all (\<lambda>a. length h \<le> a \<and> a < length h') (arrays (obj_storage C))"
    by blast
  show ?thesis
    using c ext new v
    by (auto simp add: obj_truediv_def obj_div_def SparseMatrix_truediv_def SparseMatrix_div_def
          copy_def value_of_def)
qed

theorem truediv_domain_witness:
  "allocated [[1, 2]] [(0, ArrayRef 0), (1, Scalar 3)] \<and>
   \<bar>0 :: real\<bar> < 1 / 10 ^ 8 \<and>
   obj_truediv [[1, 2]] \<lparr>obj_storage = [(0, ArrayRef 0), (1, Scalar 3)], obj_shape = (2, 2), obj_scale = 4\<rparr> 0
     = Inl AssertionError \<and>
   \<bar>2 :: real\<bar> > 1 / 10 ^ 8 \<and>
   obj_truediv [[1, 2]] \<lparr>obj_storage = [(0, ArrayRef 0), (1, Scalar 3)], obj_shape = (2, 2), obj_scale = 4\<rparr> 2
     = Inr ([[1, 2], [1, 2]],
            \<lparr>obj_storage = [(0, ArrayRef 1), (1, Scalar 3)], obj_shape = (2, 2), obj_scale = 2\<rparr>)"
  using truediv_domain [of "[[1, 2]]"
          "\<lparr>obj_storage = [(0, ArrayRef 0), (1, Scalar 3)], obj_shape = (2, 2), obj_scale = 4\<rparr>" 0]
        truediv_domain [of "[[1, 2]]"
          "\<lparr>obj_storage = [(0, ArrayRef 0), (1, Scalar 3)], obj_shape = (2, 2), obj_scale = 4\<rparr>" 2]
  by (simp add: obj_truediv_def obj_div_def obj_copy_def deepcopy_dict_def new_array_def)

section \<open>Solver selection by diagonal offsets\<close>

text \<open>
  Whenever the symmetry test returns, \<^verbatim>\<open>get_solver\<close> follows the selection table.
\<close>

lemma get_solver_table:
  assumes "issymmetric A = Inr s"
  shows "get_solver A = Inr
     (if sorted_keys A = [0, 2] then TwoDMA
      else if sorted_keys A = [- 2, 0, 2] then TDMA
      else if sorted_keys A = [- 1, 0, 1] \<and> s then TDMA_O
      else if sorted_keys A = [- 2, 0, 2, 4] then FDMA
      else if sorted_keys A = [- 4, - 2, 0, 2, 4] \<and> s then PDMA
      else Solve)"
proof -
  have len: "length (sorted_keys A) = length (storage A)"
    by (simp add: sorted_keys_def keys_def)
  show ?thesis
    using assms len by (auto simp: get_solver_def)
qed

lemma issymmetric_loop_True:
  "issymmetric_loop A items = Inr b \<Longrightarrow>
   b \<longleftrightarrow> (\<forall>(key, val) \<in> set items. 0 < key \<longrightarrow>
          (\<exists>u l d. getitem A key = Inr u \<and> getitem A (- key) = Inr l \<and>
                   broadcast2 (-) u l = Inr d \<and> all_abs_below d))"
proof (induction items)
  case Nil
  then show ?case by simp
next
  case (Cons p items)
  obtain key val where p: "p = (key, val)" by (cases p)
  show ?case
  proof (cases "key \<le> 0")
    case True
    with Cons p show ?thesis by simp
  next
    case False
    with Cons p show ?thesis
      by (auto split: sum.splits if_splits)
  qed
qed

text \<open>
  The value of the symmetry test, when it returns: the offsets sum to zero and every
  positive offset's diagonal differs from its mirror by less than \<^verbatim>\<open>1e-8\<close> elementwise.
\<close>

lemma issymmetric_value:
  assumes "issymmetric A = Inr b"
  shows "b \<longleftrightarrow> (sum_list (keys A) = 0 \<and>
          (\<forall>(key, val) \<in> set (storage A). 0 < key \<longrightarrow>
             (\<exists>u l d. getitem A key = Inr u \<and> getitem A (- key) = Inr l \<and>
                      broadcast2 (-) u l = Inr d \<and> all_abs_below d)))"
proof (cases "sum_list (keys A) = 0")
  case True
  with assms have "issymmetric_loop A (storage A) = Inr b"
    by (simp add: issymmetric_def)
  from issymmetric_loop_True [OF this] True show ?thesis by simp
next
  case False
  with assms show ?thesis by (simp add: issymmetric_def)
qed

text \<open>
  C1.  A five-diagonal matrix with the offsets \<open>-6, 0, 1, 2, 3\<close> is a well-formed
  SparseMatrix whose offsets sum to zero.  The selection table sends it to the generic
  solver \<^verbatim>\<open>Solve\<close>; \<^verbatim>\<open>get_solver\<close> evaluates \<^verbatim>\<open>self.issymmetric\<close>, which reads
  \<^verbatim>\<open>self[-1]\<close> and raises \<^verbatim>\<open>KeyError\<close>.
\<close>

theorem get_solver_KeyError:
  "get_solver \<lparr>storage = [(- 6, Num 1), (0, Num 1), (1, Num 1), (2, Num 1), (3, Num 1)],
               shape = (8, 8), scale = 1\<rparr> = Inl KeyError"
  by (simp add: get_solver_def issymmetric_def keys_def getitem_def)

section \<open>Equality does not read the scale\<close>

lemma norm2_less_iff:
  assumes "0 < t"
  shows "norm2 xs < t \<longleftrightarrow> sum_list (map (\<lambda>x. x * x) xs) < t\<^sup>2"
proof -
  have "norm2 xs < t \<longleftrightarrow> sqrt (sum_list (map (\<lambda>x. x * x) xs)) < sqrt (t\<^sup>2)"
    using assms by (simp add: norm2_def)
  also have "\<dots> \<longleftrightarrow> sum_list (map (\<lambda>x. x * x) xs) < t\<^sup>2"
    by (rule real_sqrt_less_iff)
  finally show ?thesis .
qed

lemma norm2_tol:
  "norm2 xs * 100000000 < 1 \<longleftrightarrow> sum_list (map (\<lambda>x. x * x) xs) * 10000000000000000 < 1"
  using norm2_less_iff [of "1 / 10 ^ 8" xs] by (simp add: power2_eq_square)

lemma norm2_diff_self: "norm2 (map2 (-) xs xs) = 0"
proof -
  have "map2 (-) xs xs = map (\<lambda>x. 0) xs"
    by (induction xs) simp_all
  moreover have "sum_list (map (\<lambda>x. x * x) (map (\<lambda>x. 0 :: real) xs)) = 0"
    by (induction xs) simp_all
  ultimately show ?thesis by (simp add: norm2_def)
qed

lemma diags_csr_unscaled_data_cong:
  "storage A = storage B \<Longrightarrow> shape A = shape B \<Longrightarrow>
   diags_csr_unscaled_data A = diags_csr_unscaled_data B"
proof -
  assume st: "storage A = storage B" and sh: "shape A = shape B"
  have "entry A = entry B"
    using st by (simp add: entry_def fun_eq_iff)
  then show ?thesis
    using st sh by (simp add: diags_csr_unscaled_data_def csr_data_def)
qed

lemma SparseMatrix_eq_same_diagonals:
  assumes "storage A = storage B" and "shape A = shape B"
    and "diags_csr_unscaled_data B = Inr d"
  shows "SparseMatrix_eq A B = Inr True"
proof -
  have "diags_csr_unscaled_data A = Inr d"
    using assms diags_csr_unscaled_data_cong [of A B] by simp
  then show ?thesis
    using assms by (simp add: SparseMatrix_eq_def same_keys_def keys_def norm2_diff_self)
qed

text \<open>
  C10.  Both \<^verbatim>\<open>__eq__\<close> methods compare the unscaled diagonals and never read
  \<^verbatim>\<open>scale\<close>.  For every SparseMatrix of the base class with at least one stored
  diagonal, each diagonal fitting the shape (so that the conversion to the
  compressed-row format succeeds), and every number \<open>c\<close>, also zero, \<^verbatim>\<open>(A * c) == A\<close> is
  true; so it is for an \<^verbatim>\<open>Identity\<close>.  Two SpectralMatrix objects of one class with the
  same diagonals and any two scales are equal.  The product \<^verbatim>\<open>A * c\<close> of a
  SpectralMatrix, however, is made by \<^verbatim>\<open>copy\<close> and is a plain SparseMatrix: its key is
  the hash of its offsets and not the key of \<open>A\<close>, and \<^verbatim>\<open>(A * c) == A\<close> is false.
\<close>

theorem eq_scale_blind:
  assumes "storage A \<noteq> []" and "list_all (diag_fits (shape A)) (storage A)"
  shows "SparseMatrix_eq (SparseMatrix_mul A c) A = Inr True \<and>
         matrix_eq (matrix_mul \<lparr>sm = A, cls = SparseMatrix_class\<rparr> c)
                   \<lparr>sm = A, cls = SparseMatrix_class\<rparr> = Inr True \<and>
         (storage A = [(0, Num 1)] \<longrightarrow>
            matrix_eq (matrix_mul \<lparr>sm = A, cls = Identity_class\<rparr> c)
                      \<lparr>sm = A, cls = Identity_class\<rparr> = Inr True) \<and>
         matrix_eq \<lparr>sm = A\<lparr>scale := s\<rparr>, cls = SpectralMatrix_class name test trial\<rparr>
                   \<lparr>sm = A, cls = SpectralMatrix_class name test trial\<rparr> = Inr True \<and>
         matrix_eq (matrix_mul \<lparr>sm = A, cls = SpectralMatrix_class name test trial\<rparr> c)
                   \<lparr>sm = A, cls = SpectralMatrix_class name test trial\<rparr> = Inr False"
proof -
  have d: "diags_csr_unscaled_data A = Inr (csr_data A)"
    using assms by (simp add: diags_csr_unscaled_data_def)
  have same: "\<And>B. storage B = storage A \<Longrightarrow> shape B = shape A \<Longrightarrow> SparseMatrix_eq B A = Inr True"
    using d by (intro SparseMatrix_eq_same_diagonals [where d = "csr_data A"])
  have plain: "SparseMatrix_eq (SparseMatrix_mul A c) A = Inr True"
    by (rule same) (simp_all add: SparseMatrix_mul_def copy_def)
  have base: "matrix_eq (matrix_mul \<lparr>sm = A, cls = SparseMatrix_class\<rparr> c)
                \<lparr>sm = A, cls = SparseMatrix_class\<rparr> = Inr True"
    using same [of "(copy A)\<lparr>scale := scale (copy A) * c\<rparr>"]
    by (simp add: matrix_eq_def matrix_mul_def matrix_copy_def is_spectral_def copy_def)
  have unit: "storage A = [(0, Num 1)] \<Longrightarrow>
              matrix_eq (matrix_mul \<lparr>sm = A, cls = Identity_class\<rparr> c)
                \<lparr>sm = A, cls = Identity_class\<rparr> = Inr True"
    using same [of "\<lparr>storage = [(0, Num 1)], shape = shape A, scale = scale A * c\<rparr>"]
    by (simp add: matrix_eq_def matrix_mul_def matrix_copy_def is_spectral_def)
  have "diags_csr_unscaled_data (A\<lparr>scale := s\<rparr>) = Inr (csr_data A)"
    using d diags_csr_unscaled_data_cong [of "A\<lparr>scale := s\<rparr>" A] by simp
  then have spectral:
    "matrix_eq \<lparr>sm = A\<lparr>scale := s\<rparr>, cls = SpectralMatrix_class name test trial\<rparr>
               \<lparr>sm = A, cls = SpectralMatrix_class name test trial\<rparr> = Inr True"
    using d by (simp add: matrix_eq_def is_spectral_def SpectralMatrix_eq_def get_key_def
                  norm2_diff_self)
  have product:
    "matrix_eq (matrix_mul \<lparr>sm = A, cls = SpectralMatrix_class name test trial\<rparr> c)
               \<lparr>sm = A, cls = SpectralMatrix_class name test trial\<rparr> = Inr False"
    by (simp add: matrix_eq_def matrix_mul_def matrix_copy_def is_spectral_def
          SpectralMatrix_eq_def get_key_def copy_def)
  from plain base unit spectral product show ?thesis by blast
qed

theorem eq_scale_blind_witness:
  "storage \<lparr>storage = [(0, Num 1)], shape = (2, 2), scale = 3\<rparr> \<noteq> [] \<and>
   list_all (diag_fits (2, 2)) [(0, Num 1)] \<and>
   SparseMatrix_eq (SparseMatrix_mul \<lparr>storage = [(0, Num 1)], shape = (2, 2), scale = 3\<rparr> 5)
     \<lparr>storage = [(0, Num 1)], shape = (2, 2), scale = 3\<rparr> = Inr True \<and>
   matrix_eq
     (matrix_mul \<lparr>sm = \<lparr>storage = [(0, Num 1)], shape = (2, 2), scale = 3\<rparr>,
                  cls = SparseMatrix_class\<rparr> 5)
     \<lparr>sm = \<lparr>storage = [(0, Num 1)], shape = (2, 2), scale = 3\<rparr>, cls = SparseMatrix_class\<rparr>
     = Inr True \<and>
   matrix_eq
     (matrix_mul \<lparr>sm = \<lparr>storage = [(0, Num 1)], shape = (2, 2), scale = 3\<rparr>,
                  cls = Identity_class\<rparr> 5)
     \<lparr>sm = \<lparr>storage = [(0, Num 1)], shape = (2, 2), scale = 3\<rparr>, cls = Identity_class\<rparr>
     = Inr True \<and>
   matrix_eq
     \<lparr>sm = \<lparr>storage = [(0, Num 1)], shape = (2, 2), scale = 7\<rparr>,
      cls = SpectralMatrix_class ''BJJmat'' (orthogonal_basis, 0) (orthogonal_basis, 0)\<rparr>
     \<lparr>sm = \<lparr>storage = [(0, Num 1)], shape = (2, 2), scale = 3\<rparr>,
      cls = SpectralMatrix_class ''BJJmat'' (orthogonal_basis, 0) (orthogonal_basis, 0)\<rparr>
     = Inr True \<and>
   matrix_eq
     (matrix_mul \<lparr>sm = \<lparr>storage = [(0, Num 1)], shape = (2, 2), scale = 3\<rparr>,
                  cls = SpectralMatrix_class ''BJJmat'' (orthogonal_basis, 0) (orthogonal_basis, 0)\<rparr> 5)
     \<lparr>sm = \<lparr>storage = [(0, Num 1)], shape = (2, 2), scale = 3\<rparr>,
      cls = SpectralMatrix_class ''BJJmat'' (orthogonal_basis, 0) (orthogonal_basis, 0)\<rparr>
     = Inr False"
  using eq_scale_blind [of "\<lparr>storage = [(0, Num 1)], shape = (2, 2), scale = 3\<rparr>" 5 7
          "''BJJmat''" "(orthogonal_basis, 0)" "(orthogonal_basis, 0)"]
  by (simp add: diag_fits_def diag_length_def)

text \<open>
  C10, as stated, fails in three ways.  The mass matrix \<^verbatim>\<open>BJJmat\<close> of
  \<^verbatim>\<open>shenfun/jacobi/matrices.py\<close>, a SpectralMatrix (and so a SparseMatrix) with one
  nonzero diagonal, is not equal to its double, a plain SparseMatrix with another key.
  For a diagonal that does not fit the shape (two entries on the main diagonal of a
  \<open>3 \<times> 3\<close> matrix) the comparison \<^verbatim>\<open>(A * 2) == A\<close> raises \<^verbatim>\<open>ValueError\<close> in scipy's
  \<^verbatim>\<open>diags\<close>.  And two matrices with the same effective values are not equal when their
  stored diagonals differ: the diagonal \<open>[2, 2]\<close> with scale one against the diagonal
  \<open>[1, 1]\<close> with scale two.
\<close>

theorem spectral_product_counterexample:
  "matrix_eq (matrix_mul mass_matrix 2) mass_matrix = Inr False \<and>
   SparseMatrix_eq
     (SparseMatrix_mul \<lparr>storage = [(0, Arr [1, 2])], shape = (3, 3), scale = 1\<rparr> 2)
     \<lparr>storage = [(0, Arr [1, 2])], shape = (3, 3), scale = 1\<rparr> = Inl ValueError \<and>
   effective \<lparr>storage = [(0, Arr [2, 2])], shape = (2, 2), scale = 1\<rparr> =
   effective \<lparr>storage = [(0, Arr [1, 1])], shape = (2, 2), scale = 2\<rparr> \<and>
   SparseMatrix_eq \<lparr>storage = [(0, Arr [2, 2])], shape = (2, 2), scale = 1\<rparr>
     \<lparr>storage = [(0, Arr [1, 1])], shape = (2, 2), scale = 2\<rparr> = Inr False \<and>
   matrix_eq
     \<lparr>sm = \<lparr>storage = [(0, Arr [2, 2])], shape = (2, 2), scale = 1\<rparr>, cls = cls mass_matrix\<rparr>
     \<lparr>sm = \<lparr>storage = [(0, Arr [1, 1])], shape = (2, 2), scale = 2\<rparr>, cls = cls mass_matrix\<rparr>
     = Inr False"
  by (simp add: mass_matrix_def orthogonal_basis_def matrix_eq_def matrix_mul_def matrix_copy_def
        is_spectral_def SpectralMatrix_eq_def get_key_def copy_def SparseMatrix_mul_def
        SparseMatrix_eq_def same_keys_def keys_def diags_csr_unscaled_data_def diag_fits_def
        diag_length_def csr_data_def entry_def diag_at_def norm2_tol upt_rec effective_def)

section \<open>Algebra round trips\<close>











lemma incorporate_scale_shape: "shape (incorporate_scale B) = shape B"
  by (simp add: incorporate_scale_def)












section \<open>Diagonal extraction from a dense matrix\<close>

lemma max_abs_Max: "xs \<noteq> [] \<Longrightarrow> max_abs xs = Max (abs ` set xs)"
proof -
  have *: "fold (\<lambda>x m. max m \<bar>x\<bar>) ys a = Max (insert a (abs ` set ys))" for ys and a :: real
  proof (induction ys arbitrary: a)
    case Nil
    then show ?case by simp
  next
    case (Cons y ys)
    have "Max (insert (max a \<bar>y\<bar>) (abs ` set ys)) = Max (insert a (insert \<bar>y\<bar> (abs ` set ys)))"
      by (cases "ys = []") (simp_all add: max.assoc max.commute max.left_commute)
    with Cons show ?case by simp
  qed
  assume "xs \<noteq> []"
  then obtain x ys where "xs = x # ys" by (cases xs) auto
  then show ?thesis by (simp add: *)
qed

lemma extract_loop_char:
  assumes "\<forall>k\<in>set ks. diagonal M k \<noteq> []"
  shows "\<exists>d'. extract_loop M abstol reltol (max_abs (flat M)) ks d = Inr d' \<and>
           (\<forall>k. map_of d' k =
              (if k \<in> set ks \<and> kept M abstol reltol k then Some (Arr (diagonal M k))
               else map_of d k))"
  using assms
proof (induction ks arbitrary: d)
  case Nil
  then show ?case by simp
next
  case (Cons k ks)
  have ne: "diagonal M k \<noteq> []" using Cons.prems by simp
  have rest: "\<forall>k\<in>set ks. diagonal M k \<noteq> []" using Cons.prems by simp
  show ?case
  proof (cases "kept M abstol reltol k")
    case True
    from Cons.IH [OF rest, of "AList.update k (Arr (diagonal M k)) d"] obtain d' where
      "extract_loop M abstol reltol (max_abs (flat M)) ks (AList.update k (Arr (diagonal M k)) d) = Inr d'"
      "\<forall>j. map_of d' j =
              (if j \<in> set ks \<and> kept M abstol reltol j then Some (Arr (diagonal M j))
               else map_of (AList.update k (Arr (diagonal M k)) d) j)"
      by blast
    with True ne show ?thesis
      by (auto simp: abs_max_def kept_def update_conv')
  next
    case False
    from Cons.IH [OF rest, of d] obtain d' where
      "extract_loop M abstol reltol (max_abs (flat M)) ks d = Inr d'"
      "\<forall>j. map_of d' j =
              (if j \<in> set ks \<and> kept M abstol reltol j then Some (Arr (diagonal M j))
               else map_of d j)"
      by blast
    with False ne show ?thesis
      by (auto simp: abs_max_def kept_def)
  qed
qed

lemma extract_loop_distinct:
  "extract_loop M abstol reltol relmax ks d = Inr d' \<Longrightarrow> distinct (map fst d) \<Longrightarrow>
   distinct (map fst d')"
  by (induction ks arbitrary: d) (auto split: sum.splits if_splits intro: distinct_update)

lemma diagonal_nonempty:
  assumes "0 < nrows M" and "0 < ncols M" and "- int (nrows M) < k" and "k < int (ncols M)"
  shows "diagonal M k \<noteq> []"
  using assms by (auto simp: diagonal_def)

lemma diagonal_nth:
  "t < length (diagonal M k) \<Longrightarrow> diagonal M k ! t = elem M (t + nat (- k)) (t + nat k)"
  by (auto simp: diagonal_def)

lemma diagonal_length:
  "int (length (diagonal M k)) = max 0 (diag_length (nrows M, ncols M) k)"
  by (auto simp: diagonal_def diag_length_def min_def max_def)

text \<open>
  C3.  For every dense matrix with at least one row and one column (so that the maxima
  the claim speaks of exist), \<^verbatim>\<open>extract_diagonal_matrix\<close> with its default tolerances
  returns a SparseMatrix of the same shape; an offset \<open>k\<close>, of any sign, is stored if and
  only if it is an offset of the matrix, the maximum absolute value of the \<open>k\<close>-th
  diagonal exceeds \<^verbatim>\<open>1e-10\<close> and that maximum divided by the maximum absolute entry of
  the matrix exceeds \<^verbatim>\<open>1e-10\<close>; every stored diagonal is an array of the diagonal's
  length holding the matrix entries of that diagonal.
\<close>

theorem extract_diagonal_matrix_spec:
  assumes "0 < nrows M" and "0 < ncols M"
  shows "\<exists>S. extract_diagonal_matrix M (1 / 10 ^ 10) (1 / 10 ^ 10) = Inr S \<and>
           shape S = (nrows M, ncols M) \<and> distinct (keys S) \<and>
           (\<forall>k. k \<in> set (keys S) \<longleftrightarrow>
                  - int (nrows M) < k \<and> k < int (ncols M) \<and>
                  max_abs (diagonal M k) > 1 / 10 ^ 10 \<and>
                  max_abs (diagonal M k) / max_abs (flat M) > 1 / 10 ^ 10) \<and>
           (\<forall>k \<in> set (keys S). \<exists>xs. map_of (storage S) k = Some (Arr xs) \<and>
                  int (length xs) = diag_length (nrows M, ncols M) k \<and>
                  (\<forall>t < length xs. xs ! t = elem M (t + nat (- k)) (t + nat k)))"
proof -
  let ?a = "1 / 10 ^ 10 :: real"
  let ?up = "map int [0..<ncols M]"
  let ?lo = "map (\<lambda>i. - int i) [1..<nrows M]"
  have flat_ne: "flat M \<noteq> []"
  proof -
    have "elem M 0 0 \<in> set (flat M)"
      using assms by (auto simp: flat_def intro!: bexI [where x = 0])
    then show ?thesis by auto
  qed
  have up_ne: "\<forall>k\<in>set ?up. diagonal M k \<noteq> []"
  proof
    fix k assume "k \<in> set ?up"
    then have "- int (nrows M) < k" "k < int (ncols M)" using assms by auto
    then show "diagonal M k \<noteq> []" by (rule diagonal_nonempty [OF assms])
  qed
  have lo_ne: "\<forall>k\<in>set ?lo. diagonal M k \<noteq> []"
  proof
    fix k assume "k \<in> set ?lo"
    then have "- int (nrows M) < k" "k < int (ncols M)" using assms by auto
    then show "diagonal M k \<noteq> []" by (rule diagonal_nonempty [OF assms])
  qed
  from extract_loop_char [OF up_ne, of ?a ?a "[]"] obtain d where
    d: "extract_loop M ?a ?a (max_abs (flat M)) ?up [] = Inr d"
       "\<forall>k. map_of d k = (if k \<in> set ?up \<and> kept M ?a ?a k then Some (Arr (diagonal M k))
                           else map_of [] k)"
    by blast
  from extract_loop_char [OF lo_ne, of ?a ?a d] obtain d' where
    d': "extract_loop M ?a ?a (max_abs (flat M)) ?lo d = Inr d'"
        "\<forall>k. map_of d' k = (if k \<in> set ?lo \<and> kept M ?a ?a k then Some (Arr (diagonal M k))
                            else map_of d k)"
    by blast
  let ?S = "\<lparr>storage = d', shape = (nrows M, ncols M), scale = 1\<rparr>"
  have run: "extract_diagonal_matrix M ?a ?a = Inr ?S"
    using flat_ne d(1) d'(1) by (simp add: extract_diagonal_matrix_def abs_max_def)
  have range: "k \<in> set ?up \<or> k \<in> set ?lo \<longleftrightarrow> - int (nrows M) < k \<and> k < int (ncols M)" for k
  proof
    assume "k \<in> set ?up \<or> k \<in> set ?lo"
    then show "- int (nrows M) < k \<and> k < int (ncols M)"
      using assms by auto
  next
    assume r: "- int (nrows M) < k \<and> k < int (ncols M)"
    show "k \<in> set ?up \<or> k \<in> set ?lo"
    proof (cases "0 \<le> k")
      case True
      with r have "nat k \<in> set [0..<ncols M]" by auto
      then have "int (nat k) \<in> set ?up" by (simp only: set_map image_eqI)
      with True show ?thesis by simp
    next
      case False
      with r have "nat (- k) \<in> set [1..<nrows M]" by auto
      then have "- int (nat (- k)) \<in> set ?lo"
        by (simp only: set_map image_eqI)
      with False show ?thesis by simp
    qed
  qed
  have lookup: "map_of d' k =
      (if - int (nrows M) < k \<and> k < int (ncols M) \<and> kept M ?a ?a k
       then Some (Arr (diagonal M k)) else None)" for k
    using d(2) d'(2) range [of k] by auto
  have dist: "distinct (map fst d')"
    using extract_loop_distinct [OF d'(1)] extract_loop_distinct [OF d(1)] by simp
  have mem: "k \<in> set (keys ?S) \<longleftrightarrow> map_of d' k \<noteq> None" for k
    by (simp add: keys_def map_of_eq_None_iff)
  have keys_iff: "\<forall>k. k \<in> set (keys ?S) \<longleftrightarrow>
                  - int (nrows M) < k \<and> k < int (ncols M) \<and>
                  max_abs (diagonal M k) > ?a \<and>
                  max_abs (diagonal M k) / max_abs (flat M) > ?a"
    unfolding mem lookup by (simp add: kept_def)
  have vals: "\<forall>k \<in> set (keys ?S). \<exists>xs. map_of (storage ?S) k = Some (Arr xs) \<and>
                  int (length xs) = diag_length (nrows M, ncols M) k \<and>
                  (\<forall>t < length xs. xs ! t = elem M (t + nat (- k)) (t + nat k))"
  proof
    fix k assume "k \<in> set (keys ?S)"
    then have k: "map_of d' k \<noteq> None" using mem [of k] by blast
    then have r: "- int (nrows M) < k \<and> k < int (ncols M)" and
      m: "map_of d' k = Some (Arr (diagonal M k))"
      by (auto simp: lookup split: if_splits)
    have "diagonal M k \<noteq> []"
      using diagonal_nonempty assms r by blast
    then have "int (length (diagonal M k)) = diag_length (nrows M, ncols M) k"
      using diagonal_length [of M k] by (auto simp: max_def split: if_splits)
    with m show "\<exists>xs. map_of (storage ?S) k = Some (Arr xs) \<and>
                  int (length xs) = diag_length (nrows M, ncols M) k \<and>
                  (\<forall>t < length xs. xs ! t = elem M (t + nat (- k)) (t + nat k))"
      by (simp add: diagonal_nth)
  qed
  show ?thesis
    using run dist keys_iff vals by (intro exI [of _ ?S]) (simp add: keys_def)
qed

theorem extract_diagonal_matrix_spec_witness:
  "0 < nrows \<lparr>nrows = 2, ncols = 2, elem = (\<lambda>i j. if i = j then 1 else 0)\<rparr> \<and>
   0 < ncols \<lparr>nrows = 2, ncols = 2, elem = (\<lambda>i j. if i = j then 1 else 0)\<rparr> \<and>
   (\<exists>S. extract_diagonal_matrix
           \<lparr>nrows = 2, ncols = 2, elem = (\<lambda>i j. if i = j then 1 else 0)\<rparr>
           (1 / 10 ^ 10) (1 / 10 ^ 10) = Inr S \<and>
        shape S = (2, 2) \<and> set (keys S) = {0} \<and>
        map_of (storage S) 0 = Some (Arr [1, 1]))"
proof -
  let ?M = "\<lparr>nrows = 2, ncols = 2, elem = (\<lambda>i j. if i = j then 1 else 0 :: real)\<rparr>"
  from extract_diagonal_matrix_spec [of ?M] obtain S where
    S: "extract_diagonal_matrix ?M (1 / 10 ^ 10) (1 / 10 ^ 10) = Inr S"
       "shape S = (nrows ?M, ncols ?M)"
       "\<forall>k. k \<in> set (keys S) \<longleftrightarrow>
                  - int (nrows ?M) < k \<and> k < int (ncols ?M) \<and>
                  max_abs (diagonal ?M k) > 1 / 10 ^ 10 \<and>
                  max_abs (diagonal ?M k) / max_abs (flat ?M) > 1 / 10 ^ 10"
       "\<forall>k \<in> set (keys S). \<exists>xs. map_of (storage S) k = Some (Arr xs) \<and>
                  int (length xs) = diag_length (nrows ?M, ncols ?M) k \<and>
                  (\<forall>t < length xs. xs ! t = elem ?M (t + nat (- k)) (t + nat k))"
    by auto
  have k: "k \<in> set (keys S) \<longleftrightarrow> k = 0" for k
  proof -
    have "- 2 < k \<and> k < 2 \<longleftrightarrow> k = - 1 \<or> k = 0 \<or> k = 1" by auto
    then show ?thesis
      using S(3) by (auto simp: diagonal_def flat_def upt_rec)
  qed
  then have keys: "set (keys S) = {0}" by auto
  then obtain xs where xs: "map_of (storage S) 0 = Some (Arr xs)" "length xs = 2"
    "\<forall>t < length xs. xs ! t = 1"
    using S(4) by (auto simp: diag_length_def)
  have "xs = [1, 1]"
    using xs(2,3) by (auto simp: list_eq_iff_nth_eq less_Suc_eq numeral_2_eq_2)
  with S(1,2) keys xs(1) show ?thesis by auto
qed

section \<open>Block assembly refuses a mixture of boundary and regular matrices\<close>

lemmas tp_eval =
  get_simplified_def setxor1d_def upt_rec getitem_def nd_binop_def Identity_def
  TPMatrix_init_def eval_nat_numeral

lemma contains_bc_matrix_iff:
  "contains_bc_matrix B \<longleftrightarrow> (\<exists>m \<in> set (all_mats B). entry_is_bc_matrix m)"
  by (auto simp: contains_bc_matrix_def all_mats_def list_ex_iff)

lemma contains_regular_matrix_iff:
  "contains_regular_matrix B \<longleftrightarrow> (\<exists>m \<in> set (all_mats B). \<not> entry_is_bc_matrix m)"
  by (auto simp: contains_regular_matrix_def all_mats_def list_ex_iff)

lemma sum_terms_char:
  "sum_terms S term d ms = Inr r \<longleftrightarrow>
     (\<exists>ds. list_all2 (\<lambda>mj t. term mj = Inr t) ms ds \<and> r = foldl (sp_plus S) d ds)"
proof (induction ms arbitrary: d)
  case Nil
  then show ?case by auto
next
  case (Cons m ms)
  show ?case
  proof (cases "term m")
    case (Inl e)
    then show ?thesis by (auto simp add: list_all2_Cons1)
  next
    case (Inr t)
    then show ?thesis
      using Cons [of "sp_plus S d t"] by (auto simp add: list_all2_Cons1)
  qed
qed

lemma block_sum_char:
  "block_sum S term ms = Inr r \<longleftrightarrow>
     (\<exists>ds. list_all2 (\<lambda>mj t. term mj = Inr t) ms ds \<and> ds \<noteq> [] \<and>
           r = foldl (sp_plus S) (hd ds) (tl ds))"
proof (cases ms)
  case Nil
  then show ?thesis by (simp add: block_sum_def)
next
  case (Cons m rest)
  show ?thesis
  proof (cases "term m")
    case (Inl e)
    then show ?thesis using Cons by (auto simp add: block_sum_def list_all2_Cons1)
  next
    case (Inr t)
    then show ?thesis
      using Cons sum_terms_char [of S "term" t rest r]
      by (auto simp add: block_sum_def list_all2_Cons1)
  qed
qed

lemma cell_block_term_of:
  "cell_block S mixed it (Mats (m # rest)) =
     map_sum id Some (block_sum S (term_of S mixed it m) (m # rest))"
proof (cases mixed)
  case True
  then have "term_of S mixed it m = entry_diags S"
    by (intro ext) (simp add: term_of_def)
  then show ?thesis using True by (simp add: cell_block_def)
next
  case False
  show ?thesis
  proof (cases m)
    case (SM a)
    then have "term_of S mixed it m = (\<lambda>mj. Inl AttributeError)"
      using False by (intro ext) (simp add: term_of_def)
    then show ?thesis using False SM by (simp add: cell_block_def block_sum_def)
  next
    case (TP t)
    have "term_of S mixed it m =
          (if length (naxes t) = 2 then
             (if length (mats t) = 2 then kron_item_term S else kron_naxes_term S it)
           else single_axis_term S it)"
      using False TP by (intro ext) (simp add: term_of_def)
    then show ?thesis using False TP by (simp add: cell_block_def)
  qed
qed


lemma collect_Inl: "collect rs = Inl e \<Longrightarrow> Inl e \<in> set rs"
  by (induction rs rule: collect.induct) (auto split: sum.splits)

lemma collect_map_Inr:
  "collect (map f xs) = Inr ys \<longleftrightarrow> list_all2 (\<lambda>x y. f x = Inr y) xs ys"
proof (induction xs arbitrary: ys)
  case Nil
  then show ?case by auto
next
  case (Cons x xs)
  show ?case
  proof (cases "f x")
    case (Inl e)
    then show ?thesis by (simp add: list_all2_Cons1)
  next
    case y: (Inr y)
    show ?thesis
    proof (cases "collect (map f xs)")
      case (Inl e)
      then have "\<And>zs. \<not> list_all2 (\<lambda>x y. f x = Inr y) xs zs"
        using Cons by (metis sum.distinct(1))
      then show ?thesis using y Inl by (simp add: list_all2_Cons1)
    next
      case (Inr zs)
      then have "\<And>zs'. list_all2 (\<lambda>x y. f x = Inr y) xs zs' \<longleftrightarrow> zs' = zs"
        using Cons by (metis sum.inject(2))
      then show ?thesis using y Inr by (auto simp add: list_all2_Cons1)
    qed
  qed
qed

lemma scipy_result_no_RuntimeError: "scipy_result r \<noteq> Inl RuntimeError"
  by (simp add: scipy_result_def split: option.splits)

lemma nd_index_no_RuntimeError: "nd_index a is \<noteq> Inl RuntimeError"
  by (induction a "is" rule: nd_index.induct) simp_all

lemma scale_at_no_RuntimeError: "scale_at m it \<noteq> Inl RuntimeError"
  by (auto simp add: scale_at_def where_shape_is_1_def nd_index_no_RuntimeError split: sum.splits)

lemma nd_item_no_RuntimeError: "nd_item a \<noteq> Inl RuntimeError"
  by (simp add: nd_item_def split: list.splits)

lemma axis_diags_no_RuntimeError: "axis_diags S m i \<noteq> Inl RuntimeError"
  by (simp add: axis_diags_def scipy_result_no_RuntimeError)

lemma naxes_diags_no_RuntimeError: "naxes_diags S m j \<noteq> Inl RuntimeError"
  by (simp add: naxes_diags_def axis_diags_no_RuntimeError)

lemma TPMatrix_diags_no_RuntimeError: "TPMatrix_diags S T \<noteq> Inl RuntimeError"
proof
  assume a: "TPMatrix_diags S T = Inl RuntimeError"
  then have "collect (map (\<lambda>m. scipy_result (sp_diags S (sm m))) (mats T)) = Inl RuntimeError"
    using nd_item_no_RuntimeError [of "scale_array T"]
    by (auto simp add: TPMatrix_diags_def split: if_splits sum.splits)
  from collect_Inl [OF this] have
    "\<exists>m :: axis_matrix. scipy_result (sp_diags S (sm m)) = Inl RuntimeError"
    unfolding set_map by (blast dest: sym)
  then show False by (simp add: scipy_result_no_RuntimeError)
qed

lemma term_of_no_RuntimeError: "term_of S mixed it m0 mj \<noteq> Inl RuntimeError"
proof (cases mj)
  case (TP m)
  then show ?thesis
    using scale_at_no_RuntimeError [of m it] nd_item_no_RuntimeError [of "scale_array m"]
      axis_diags_no_RuntimeError [of S m 0] axis_diags_no_RuntimeError [of S m 1]
      naxes_diags_no_RuntimeError [of S m 0] naxes_diags_no_RuntimeError [of S m 1]
      TPMatrix_diags_no_RuntimeError [of S m]
    by (auto simp add: term_of_def split: block_entry.splits sum.splits)
next
  case (SM a)
  then show ?thesis
    by (auto simp add: term_of_def scipy_result_no_RuntimeError split: block_entry.splits)
qed

lemma sum_terms_no_RuntimeError:
  "(\<And>mj. term mj \<noteq> Inl RuntimeError) \<Longrightarrow> sum_terms S term d ms \<noteq> Inl RuntimeError"
  by (induction ms arbitrary: d) (auto split: sum.splits)

lemma block_sum_no_RuntimeError:
  "(\<And>mj. term mj \<noteq> Inl RuntimeError) \<Longrightarrow> block_sum S term ms \<noteq> Inl RuntimeError"
  using sum_terms_no_RuntimeError [of "term" S]
  by (auto simp add: block_sum_def split: list.splits sum.splits)

lemma cell_block_no_RuntimeError: "cell_block S mixed it c \<noteq> Inl RuntimeError"
proof (cases c)
  case (Number n)
  then show ?thesis by (simp add: cell_block_def)
next
  case (Mats ms)
  show ?thesis
  proof (cases ms)
    case Nil
    then show ?thesis using Mats by (simp add: cell_block_def)
  next
    case (Cons m rest)
    have "block_sum S (term_of S mixed it m) (m # rest) \<noteq> Inl RuntimeError"
      by (rule block_sum_no_RuntimeError) (rule term_of_no_RuntimeError)
    then show ?thesis
      unfolding Mats Cons cell_block_term_of
      by (cases "block_sum S (term_of S mixed it m) (m # rest)") simp_all
  qed
qed

lemma assemble_blocks_no_RuntimeError: "assemble_blocks S B it \<noteq> Inl RuntimeError"
proof
  assume a: "assemble_blocks S B it = Inl RuntimeError"
  let ?rows = "map (\<lambda>mi. collect (map (cell_block S (testbase_is_mixed B) it) mi)) (cells B)"
  from a have "collect ?rows = Inl RuntimeError"
    using scipy_result_no_RuntimeError by (auto simp add: assemble_blocks_def split: sum.splits)
  from collect_Inl [OF this] obtain mi where
    "collect (map (cell_block S (testbase_is_mixed B) it) mi) = Inl RuntimeError"
    unfolding set_map by (blast dest: sym)
  from collect_Inl [OF this] have
    "\<exists>c. cell_block S (testbase_is_mixed B) it c = Inl RuntimeError"
    unfolding set_map by (blast dest: sym)
  then show False by (simp add: cell_block_no_RuntimeError)
qed


lemma list_all_ex_list_all2:
  "list_all (\<lambda>x. \<exists>y. P x y) xs \<Longrightarrow> \<exists>ys. list_all2 P xs ys"
proof (induction xs)
  case Nil
  then show ?case by simp
next
  case (Cons x xs)
  then obtain y ys where "P x y" "list_all2 P xs ys" by auto
  then have "list_all2 P (x # xs) (y # ys)" by simp
  then show ?case by blast
qed

lemma cell_ready_block:
  assumes "cell_ready S mixed it c"
  shows "\<exists>v. cell_block S mixed it c = Inr v \<and> cell_assembled S mixed it c v"
proof (cases c)
  case (Number n)
  then show ?thesis by (simp add: cell_block_def cell_assembled_def)
next
  case (Mats ms)
  with assms obtain m rest where ms: "ms = m # rest"
    by (cases ms) (simp_all add: cell_ready_def)
  from assms Mats have "list_all (\<lambda>mj. \<exists>d. term_of S mixed it (hd ms) mj = Inr d) ms"
    by (simp add: cell_ready_def)
  from list_all_ex_list_all2 [OF this] obtain ds where
    ds: "list_all2 (\<lambda>mj d. term_of S mixed it (hd ms) mj = Inr d) ms ds"
    by blast
  then have ne: "ds \<noteq> []" using ms by auto
  have "block_sum S (term_of S mixed it m) (m # rest) = Inr (foldl (sp_plus S) (hd ds) (tl ds))"
    unfolding block_sum_char using ds ne ms by auto
  then have "cell_block S mixed it c = Inr (Some (foldl (sp_plus S) (hd ds) (tl ds)))"
    unfolding Mats ms cell_block_term_of by simp
  moreover have "cell_assembled S mixed it c (Some (foldl (sp_plus S) (hd ds) (tl ds)))"
    unfolding cell_assembled_def Mats using ds ne by auto
  ultimately show ?thesis by blast
qed

lemma row_ready_blocks:
  assumes "list_all (cell_ready S mixed it) mi"
  shows "\<exists>vs. collect (map (cell_block S mixed it) mi) = Inr vs \<and>
              list_all2 (cell_assembled S mixed it) mi vs"
proof -
  from assms have
    "list_all (\<lambda>c. \<exists>v. cell_block S mixed it c = Inr v \<and> cell_assembled S mixed it c v) mi"
    using cell_ready_block [of S mixed it] by (simp add: list_all_iff)
  from list_all_ex_list_all2 [OF this] obtain vs where
    "list_all2 (\<lambda>c v. cell_block S mixed it c = Inr v \<and> cell_assembled S mixed it c v) mi vs"
    by blast
  then have "list_all2 (\<lambda>c v. cell_block S mixed it c = Inr v) mi vs"
    and "list_all2 (cell_assembled S mixed it) mi vs"
    by (simp_all add: list_all2_conv_all_nth)
  then show ?thesis
    using collect_map_Inr [of "cell_block S mixed it" mi vs] by blast
qed

lemma grid_ready_blocks:
  assumes "list_all (list_all (cell_ready S mixed it)) rows"
  shows "\<exists>bm. collect (map (\<lambda>mi. collect (map (cell_block S mixed it) mi)) rows) = Inr bm \<and>
              list_all2 (list_all2 (cell_assembled S mixed it)) rows bm"
proof -
  from assms have
    "list_all (\<lambda>mi. \<exists>vs. collect (map (cell_block S mixed it) mi) = Inr vs \<and>
                list_all2 (cell_assembled S mixed it) mi vs) rows"
    using row_ready_blocks [of S mixed it] by (simp add: list_all_iff)
  from list_all_ex_list_all2 [OF this] obtain bm where
    "list_all2 (\<lambda>mi vs. collect (map (cell_block S mixed it) mi) = Inr vs \<and>
                list_all2 (cell_assembled S mixed it) mi vs) rows bm"
    by blast
  then have "list_all2 (\<lambda>mi vs. collect (map (cell_block S mixed it) mi) = Inr vs) rows bm"
    and "list_all2 (list_all2 (cell_assembled S mixed it)) rows bm"
    by (simp_all add: list_all2_conv_all_nth)
  then show ?thesis
    using collect_map_Inr [of "\<lambda>mi. collect (map (cell_block S mixed it) mi)" rows bm] by blast
qed

text \<open>
  C7.  \<^verbatim>\<open>BlockMatrix.diags\<close> raises \<^verbatim>\<open>RuntimeError\<close> for every block matrix that holds
  at least one boundary matrix (\<^verbatim>\<open>is_bc_matrix\<close> true) and at least one regular matrix.
  When all its matrices are of one kind, \<^verbatim>\<open>RuntimeError\<close> is not raised, neither by the
  guard nor by the assembly; and when every cell is ready, the call returns what
  \<^verbatim>\<open>bmat\<close> makes of the grid of blocks, \<open>None\<close> for a zero cell and the sum of the
  terms of its matrices for a list.
\<close>

theorem diags_mixed_blocks:
  "((\<exists>m \<in> set (all_mats B). entry_is_bc_matrix m) \<and>
    (\<exists>m \<in> set (all_mats B). \<not> entry_is_bc_matrix m)
      \<longrightarrow> BlockMatrix_diags S B it = Inl RuntimeError) \<and>
   ((\<forall>m \<in> set (all_mats B). entry_is_bc_matrix m) \<or>
    (\<forall>m \<in> set (all_mats B). \<not> entry_is_bc_matrix m)
      \<longrightarrow> BlockMatrix_diags S B it \<noteq> Inl RuntimeError \<and>
          (list_all (list_all (cell_ready S (testbase_is_mixed B) it)) (cells B) \<longrightarrow>
             (\<exists>bm. list_all2 (list_all2 (cell_assembled S (testbase_is_mixed B) it)) (cells B) bm \<and>
                   BlockMatrix_diags S B it = scipy_result (sp_bmat S bm))))"
proof (intro conjI impI)
  assume "(\<exists>m \<in> set (all_mats B). entry_is_bc_matrix m) \<and>
          (\<exists>m \<in> set (all_mats B). \<not> entry_is_bc_matrix m)"
  then show "BlockMatrix_diags S B it = Inl RuntimeError"
    unfolding BlockMatrix_diags_def contains_bc_matrix_iff contains_regular_matrix_iff by simp
next
  assume pure: "(\<forall>m \<in> set (all_mats B). entry_is_bc_matrix m) \<or>
                (\<forall>m \<in> set (all_mats B). \<not> entry_is_bc_matrix m)"
  then have run: "BlockMatrix_diags S B it = assemble_blocks S B it"
    unfolding BlockMatrix_diags_def contains_bc_matrix_iff contains_regular_matrix_iff by auto
  show "BlockMatrix_diags S B it \<noteq> Inl RuntimeError"
    unfolding run by (rule assemble_blocks_no_RuntimeError)
  assume "list_all (list_all (cell_ready S (testbase_is_mixed B) it)) (cells B)"
  from grid_ready_blocks [OF this] obtain bm where
    "collect (map (\<lambda>mi. collect (map (cell_block S (testbase_is_mixed B) it) mi)) (cells B)) = Inr bm"
    and "list_all2 (list_all2 (cell_assembled S (testbase_is_mixed B) it)) (cells B) bm"
    by blast
  then show "\<exists>bm. list_all2 (list_all2 (cell_assembled S (testbase_is_mixed B) it)) (cells B) bm \<and>
                   BlockMatrix_diags S B it = scipy_result (sp_bmat S bm)"
    unfolding run assemble_blocks_def by auto
qed

theorem diags_mixed_blocks_witness:
  "list_ex entry_is_bc_matrix
     (all_mats \<lparr>cells = [[Mats [TP regular_term, TP boundary_term]]], testbase_is_mixed = False\<rparr>) \<and>
   list_ex (\<lambda>m. \<not> entry_is_bc_matrix m)
     (all_mats \<lparr>cells = [[Mats [TP regular_term, TP boundary_term]]], testbase_is_mixed = False\<rparr>) \<and>
   BlockMatrix_diags symbolic_scipy
     \<lparr>cells = [[Mats [TP regular_term, TP boundary_term]]], testbase_is_mixed = False\<rparr> [0]
     = Inl RuntimeError \<and>
   list_all (\<lambda>m. \<not> entry_is_bc_matrix m)
     (all_mats \<lparr>cells = [[Mats [TP regular_term, TP (regular_term\<lparr>scale_array := Vec [Sc 3]\<rparr>)],
                           Number 0]],
                testbase_is_mixed = False\<rparr>) \<and>
   list_all (list_all (cell_ready symbolic_scipy False [0]))
     [[Mats [TP regular_term, TP (regular_term\<lparr>scale_array := Vec [Sc 3]\<rparr>)], Number 0]] \<and>
   BlockMatrix_diags symbolic_scipy
     \<lparr>cells = [[Mats [TP regular_term, TP (regular_term\<lparr>scale_array := Vec [Sc 3]\<rparr>)], Number 0]],
      testbase_is_mixed = False\<rparr> [0]
     \<noteq> Inl RuntimeError \<and>
   (\<exists>bm. list_all2 (list_all2 (cell_assembled symbolic_scipy False [0]))
           [[Mats [TP regular_term, TP (regular_term\<lparr>scale_array := Vec [Sc 3]\<rparr>)], Number 0]] bm \<and>
         BlockMatrix_diags symbolic_scipy
           \<lparr>cells = [[Mats [TP regular_term, TP (regular_term\<lparr>scale_array := Vec [Sc 3]\<rparr>)],
                       Number 0]],
            testbase_is_mixed = False\<rparr> [0]
         = scipy_result (sp_bmat symbolic_scipy bm)) \<and>
   BlockMatrix_diags symbolic_scipy
     \<lparr>cells = [[Mats [TP regular_term, TP (regular_term\<lparr>scale_array := Vec [Sc 3]\<rparr>)], Number 0]],
      testbase_is_mixed = False\<rparr> [0]
     = Inr (Bmat [[Some (Plus (Times (Diags \<lparr>storage = [(0, Arr [1, 1])], shape = (2, 2), scale = 1\<rparr>) 1)
                              (Times (Diags \<lparr>storage = [(0, Arr [1, 1])], shape = (2, 2), scale = 1\<rparr>) 3)),
                   None]])"
  using diags_mixed_blocks
          [of "\<lparr>cells = [[Mats [TP regular_term, TP boundary_term]]], testbase_is_mixed = False\<rparr>"
              symbolic_scipy "[0]"]
        diags_mixed_blocks
          [of "\<lparr>cells = [[Mats [TP regular_term, TP (regular_term\<lparr>scale_array := Vec [Sc 3]\<rparr>)],
                          Number 0]],
               testbase_is_mixed = False\<rparr>"
              symbolic_scipy "[0]"]
  by (simp add: all_mats_def TPMatrix_is_bc_matrix_def is_bc_matrix_def regular_term_def
        boundary_term_def assemble_blocks_def cell_block_def block_sum_def scale_at_def
        where_shape_is_1_def naxes_diags_def axis_diags_def symbolic_scipy_def
        scipy_result_def cell_ready_def term_of_def BlockMatrix_diags_def
        contains_bc_matrix_def contains_regular_matrix_def)

text \<open>
  When a term is ready, for the branches with one and with two non-diagonal axes: the
  scale array can be indexed, the axes read are axes of the term, and scipy accepts
  the diagonals.
\<close>

lemma single_axis_term_ready:
  assumes "scale_at m it = Inr sc" and "naxes m \<noteq> []" and "naxes m ! 0 < length (mats m)"
    and "sp_diags S (sm (mats m ! (naxes m ! 0))) = Some d"
  shows "single_axis_term S it (TP m) = Inr (sp_times S d sc)"
  using assms by (simp add: naxes_diags_def axis_diags_def scipy_result_def)

lemma kron_naxes_term_ready:
  assumes "scale_at m it = Inr sc" and "1 < length (naxes m)"
    and "naxes m ! 0 < length (mats m)" and "naxes m ! 1 < length (mats m)"
    and "sp_diags S (sm (mats m ! (naxes m ! 0))) = Some d0"
    and "sp_diags S (sm (mats m ! (naxes m ! 1))) = Some d1"
  shows "kron_naxes_term S it (TP m) = Inr (sp_times S (sp_kron S d0 d1) sc)"
  using assms by (auto simp add: naxes_diags_def axis_diags_def scipy_result_def)


text \<open>
  C7, as stated, fails for a block matrix of one kind that holds a term without a
  non-diagonal axis: \<^verbatim>\<open>m.naxes[0]\<close> raises \<^verbatim>\<open>IndexError\<close>, and no block matrix is
  assembled.
\<close>

theorem diags_pure_counterexample:
  "list_all (\<lambda>m. \<not> entry_is_bc_matrix m)
     (all_mats \<lparr>cells = [[Mats [TP diagonal_term]]], testbase_is_mixed = False\<rparr>) \<and>
   BlockMatrix_diags symbolic_scipy
     \<lparr>cells = [[Mats [TP diagonal_term]]], testbase_is_mixed = False\<rparr> [0] = Inl IndexError"
  by (simp add: all_mats_def TPMatrix_is_bc_matrix_def is_bc_matrix_def diagonal_term_def
        assemble_blocks_def cell_block_def block_sum_def scale_at_def
        where_shape_is_1_def naxes_diags_def axis_diags_def symbolic_scipy_def
        scipy_result_def BlockMatrix_diags_def contains_bc_matrix_def contains_regular_matrix_def)

section \<open>Solving with no non-diagonal axis\<close>

text \<open>
  C6, as the code has it.  When the simplified form of a TPMatrix has no non-diagonal
  axis, \<^verbatim>\<open>solve\<close> multiplies the right-hand side, on the slices of the trial bases, by
  the elementwise inverse of the scale array, in which every entry whose inversion is
  not finite is exactly zero; the inverse is an array of finite numbers.  The inversion
  is not finite at a zero entry, at a not-a-number entry and where the quotient
  overflows; at an infinite entry it is zero itself.  \<^verbatim>\<open>Identity.solve\<close> has no such
  replacement: it multiplies by \<^verbatim>\<open>1/self.scale\<close>, and a zero scale raises
  \<^verbatim>\<open>ZeroDivisionError\<close> (a Python number) or fills the result with infinities and
  not-a-numbers (a numpy scalar).
\<close>

theorem solve_zero_replacement:
  assumes "get_simplified T = Inr tpmat" and "naxes tpmat = []"
    and "constraints = [] \<or> hd constraints = (0, 0)"
  shows "TPMatrix_solve K quot T b u constraints =
     (let sl = map Some (bases_slice (trialspace tpmat));
          d = invert_scale quot (map_nd Finite (scale_array tpmat));
          u' = (case u of None \<Rightarrow> Function (space tpmat) | Some w \<Rightarrow> w)
      in case nd_slice b sl of Inl e \<Rightarrow> Inl e
         | Inr bs \<Rightarrow>
            (case nd_slice d sl of Inl e \<Rightarrow> Inl e
             | Inr ds \<Rightarrow>
                (case nd_binop (*) bs ds of Inl e \<Rightarrow> Inl e
                 | Inr x \<Rightarrow> map_sum id Some (nd_setitem u' sl x)))) \<and>
     invert_scale quot sc = map_nd (\<lambda>s. where_isfinite (reciprocal quot s)) sc \<and>
     (reciprocal quot s = Inf \<or> reciprocal quot s = NaN \<longrightarrow> where_isfinite (reciprocal quot s) = 0) \<and>
     (reciprocal quot s = Finite y \<longrightarrow> where_isfinite (reciprocal quot s) = y) \<and>
     reciprocal quot (Finite 0) = Inf \<and> reciprocal quot NaN = NaN \<and>
     reciprocal quot Inf = Finite 0 \<and>
     (x \<noteq> 0 \<longrightarrow> reciprocal quot (Finite x) = quot x) \<and>
     (scale (sm A) = 0 \<longrightarrow>
        Identity_solve False quot A b None = Inl ZeroDivisionError \<and>
        Identity_solve True quot A b None = Inr (map_nd (\<lambda>x. if x = 0 then NaN else Inf) b)) \<and>
     (scale (sm A) \<noteq> 0 \<longrightarrow>
        Identity_solve numpy_scale quot A b None =
          Inr (map_nd (\<lambda>x. float_times x (quot (scale (sm A)))) b))"
  using assms
  by (auto simp: TPMatrix_solve_def invert_scale_def Identity_solve_def Let_def reciprocal_def
        where_isfinite_def float_times_def nd.map_comp comp_def)

lemma diagonal_term_simplified:
  "get_simplified diagonal_term =
     Inr (diagonal_term\<lparr>mats := [Identity (2, 2)], scale_array := Vec [Sc 2, Sc 0],
                         issimplified := True\<rparr>)"
  by (simp add: tp_eval diagonal_term_def zero_axes_space_def)

theorem solve_zero_replacement_witness:
  "get_simplified diagonal_term =
     Inr (diagonal_term\<lparr>mats := [Identity (2, 2)], scale_array := Vec [Sc 2, Sc 0],
                         issimplified := True\<rparr>) \<and>
   TPMatrix_solve null_collaborators exact_reciprocal diagonal_term (Vec [Sc 4, Sc 6]) None [] =
     Inr (Some (Vec [Sc 2, Sc 0])) \<and>
   invert_scale exact_reciprocal (Vec [Sc (Finite 2), Sc (Finite 0), Sc NaN, Sc Inf]) =
     Vec [Sc (1 / 2), Sc 0, Sc 0, Sc 0] \<and>
   reciprocal exact_reciprocal NaN = NaN \<and> where_isfinite (reciprocal exact_reciprocal NaN) = 0 \<and>
   reciprocal exact_reciprocal (Finite 2) = Finite (1 / 2) \<and>
   where_isfinite (reciprocal exact_reciprocal (Finite 2)) = 1 / 2 \<and>
   Identity_solve False exact_reciprocal
     \<lparr>sm = \<lparr>storage = [(0, Num 1)], shape = (2, 2), scale = 0\<rparr>, cls = Identity_class\<rparr>
     (Vec [Sc 4, Sc 6]) None = Inl ZeroDivisionError \<and>
   Identity_solve True exact_reciprocal
     \<lparr>sm = \<lparr>storage = [(0, Num 1)], shape = (2, 2), scale = 0\<rparr>, cls = Identity_class\<rparr>
     (Vec [Sc 4, Sc 6]) None = Inr (Vec [Sc Inf, Sc Inf]) \<and>
   Identity_solve False exact_reciprocal
     \<lparr>sm = \<lparr>storage = [(0, Num 1)], shape = (2, 2), scale = 2\<rparr>, cls = Identity_class\<rparr>
     (Vec [Sc 4, Sc 6]) None = Inr (Vec [Sc (Finite 2), Sc (Finite 3)])"
  using solve_zero_replacement
          [OF diagonal_term_simplified, where constraints = "[]" and K = null_collaborators
             and quot = exact_reciprocal and s = NaN and x = 2
             and sc = "Vec [Sc (Finite 2), Sc (Finite 0), Sc NaN, Sc Inf]"
             and b = "Vec [Sc 4, Sc 6]" and u = None
             and A = "\<lparr>sm = \<lparr>storage = [(0, Num 1)], shape = (2, 2), scale = 0\<rparr>, cls = Identity_class\<rparr>"]
        solve_zero_replacement
          [OF diagonal_term_simplified, where constraints = "[]" and K = null_collaborators
             and quot = exact_reciprocal and s = "Finite 2" and y = "1 / 2" and x = 2
             and sc = "Vec [Sc (Finite 2), Sc (Finite 0), Sc NaN, Sc Inf]"
             and b = "Vec [Sc 4, Sc 6]" and u = None and numpy_scale = False
             and A = "\<lparr>sm = \<lparr>storage = [(0, Num 1)], shape = (2, 2), scale = 2\<rparr>, cls = Identity_class\<rparr>"]
        diagonal_term_simplified
  by (simp add: diagonal_term_def zero_axes_space_def nd_binop_def nd_setitem_def assign_all_def
        exact_reciprocal_def reciprocal_def where_isfinite_def invert_scale_def float_times_def)

text \<open>
  C6, as stated, fails for the scaled identity: with scale zero \<^verbatim>\<open>Identity.solve\<close>
  raises \<^verbatim>\<open>ZeroDivisionError\<close>, or returns infinities, where the claim has a solution
  of zeros.
\<close>

theorem identity_solve_counterexample:
  "Identity_solve False exact_reciprocal
     \<lparr>sm = \<lparr>storage = [(0, Num 1)], shape = (2, 2), scale = 0\<rparr>, cls = Identity_class\<rparr>
     (Vec [Sc 4, Sc 6]) None = Inl ZeroDivisionError \<and>
   Identity_solve True exact_reciprocal
     \<lparr>sm = \<lparr>storage = [(0, Num 1)], shape = (2, 2), scale = 0\<rparr>, cls = Identity_class\<rparr>
     (Vec [Sc 4, Sc 6]) None = Inr (Vec [Sc Inf, Sc Inf])"
  by (simp add: Identity_solve_def reciprocal_def float_times_def)

section \<open>Simplification of the diagonal axes\<close>

lemma get_simplified_cases:
  "case get_simplified T of Inl e \<Rightarrow> True | Inr T' \<Rightarrow> T' = T \<or> issimplified T'"
  by (simp add: get_simplified_def Let_def split: sum.splits prod.splits)

lemma get_simplified_result:
  assumes "get_simplified T = Inr T'"
  shows "T' = T \<or> issimplified T'"
  using get_simplified_cases [of T] assms by simp

lemma get_simplified_stable:
  assumes "get_simplified T = Inr T'"
  shows "get_simplified T' = Inr T'"
proof -
  from get_simplified_result [OF assms] show ?thesis
  proof
    assume "T' = T"
    with assms show ?thesis by simp
  next
    assume "issimplified T'"
    then show ?thesis by (simp add: get_simplified_def)
  qed
qed

lemma simplify_loop_mats:
  "simplify_loop T da axes ms sc = Inr (ms', sc') \<Longrightarrow>
   ms' = ms @ map (\<lambda>axis. if axis \<in> set da then Identity (shape (sm (mats T ! axis)))
                          else mats T ! axis) axes"
proof (induction axes arbitrary: ms sc)
  case Nil
  then show ?case by simp
next
  case (Cons axis axes)
  show ?case
  proof (cases "axis \<in> set da")
    case False
    with Cons.prems have "simplify_loop T da axes (ms @ [mats T ! axis]) sc = Inr (ms', sc')"
      by (simp add: Let_def)
    from Cons.IH [OF this] False show ?thesis by simp
  next
    case True
    with Cons.prems obtain sc1 where
      "simplify_loop T da axes (ms @ [Identity (shape (sm (mats T ! axis)))]) sc1 = Inr (ms', sc')"
      by (simp add: Let_def split: sum.splits)
    from Cons.IH [OF this] True show ?thesis by simp
  qed
qed

lemma get_simplified_mats_cases:
  "case get_simplified T of Inl e \<Rightarrow> True
   | Inr T' \<Rightarrow>
       T' = T \<or>
       (\<exists>sc. simplify_loop T (setxor1d (naxes T) [0..<dimensions (space T)])
                [0..<length (mats T)] [] (scale_array T) = Inr (mats T', sc))"
  by (simp add: get_simplified_def TPMatrix_init_def Let_def split: sum.splits prod.splits)

text \<open>
  \<^verbatim>\<open>matvec\<close> starts with \<^verbatim>\<open>tpmat = self.get_simplified()\<close> and computes from \<open>tpmat\<close>
  alone, and the simplified matrix is its own simplified form.  So for every TPMatrix
  \<open>T\<close> on which \<^verbatim>\<open>get_simplified\<close> returns, every input \<open>v\<close>, output array \<open>c\<close> and
  every choice of the outside kernels, \<^verbatim>\<open>matvec\<close> computed from \<open>T\<close> and from
  \<^verbatim>\<open>T.get_simplified()\<close> give the same result (also the same error).  The returned
  matrix is \<open>T\<close> itself, or its per-axis matrices are those of \<open>T\<close> with every
  diagonal-axis matrix replaced by an \<^verbatim>\<open>Identity\<close> of the same shape.
\<close>

lemma matvec_of_simplified:
  assumes "get_simplified T = Inr T'"
  shows "TPMatrix_matvec K T v c = TPMatrix_matvec K T' v c \<and>
         get_simplified T' = Inr T' \<and>
         (T' = T \<or>
          mats T' =
            map (\<lambda>axis. if axis \<in> set (setxor1d (naxes T) [0..<dimensions (space T)])
                         then Identity (shape (sm (mats T ! axis))) else mats T ! axis)
              [0..<length (mats T)])"
proof -
  note stable = get_simplified_stable [OF assms]
  have mv: "TPMatrix_matvec K T v c = TPMatrix_matvec K T' v c"
    by (simp add: TPMatrix_matvec_def assms stable)
  from get_simplified_mats_cases [of T] assms have
    "T' = T \<or>
       (\<exists>sc. simplify_loop T (setxor1d (naxes T) [0..<dimensions (space T)])
                [0..<length (mats T)] [] (scale_array T) = Inr (mats T', sc))"
    by simp
  then have "T' = T \<or>
          mats T' =
            map (\<lambda>axis. if axis \<in> set (setxor1d (naxes T) [0..<dimensions (space T)])
                         then Identity (shape (sm (mats T ! axis))) else mats T ! axis)
              [0..<length (mats T)]"
  proof
    assume "T' = T" then show ?thesis ..
  next
    assume "\<exists>sc. simplify_loop T (setxor1d (naxes T) [0..<dimensions (space T)])
                [0..<length (mats T)] [] (scale_array T) = Inr (mats T', sc)"
    then obtain sc where "simplify_loop T (setxor1d (naxes T) [0..<dimensions (space T)])
                [0..<length (mats T)] [] (scale_array T) = Inr (mats T', sc)" ..
    from simplify_loop_mats [OF this] show ?thesis by simp
  qed
  with mv stable show ?thesis by blast
qed

lemma plane_term_simplified:
  "get_simplified plane_term =
     Inr \<lparr>mats = [Identity (2, 2), band_matrix],
          space = plane_space, trialspace = plane_space,
          scale_array = Vec [Vec [Sc 10], Vec [Sc 15]],
          pmat = PmatMatrix band_matrix, naxes = [1], global_index = None,
          issimplified = True\<rparr>"
  by (simp add: tp_eval plane_term_def plane_space_def)

lemma plane_term_matvec:
  "get_simplified plane_term =
     Inr \<lparr>mats = [Identity (2, 2), band_matrix],
          space = plane_space, trialspace = plane_space,
          scale_array = Vec [Vec [Sc 10], Vec [Sc 15]],
          pmat = PmatMatrix band_matrix, naxes = [1], global_index = None,
          issimplified = True\<rparr> \<and>
   TPMatrix_matvec copying_collaborators plane_term
     (Vec [Vec [Sc 1, Sc 2, Sc 3], Vec [Sc 4, Sc 5, Sc 6]])
     (Vec [Vec [Sc 9, Sc 9, Sc 9], Vec [Sc 9, Sc 9, Sc 9]]) =
     Inr (Vec [Vec [Sc 10, Sc 20, Sc 30], Vec [Sc 60, Sc 75, Sc 90]]) \<and>
   TPMatrix_matvec copying_collaborators
     \<lparr>mats = [Identity (2, 2), band_matrix],
      space = plane_space, trialspace = plane_space,
      scale_array = Vec [Vec [Sc 10], Vec [Sc 15]],
      pmat = PmatMatrix band_matrix, naxes = [1], global_index = None,
      issimplified = True\<rparr>
     (Vec [Vec [Sc 1, Sc 2, Sc 3], Vec [Sc 4, Sc 5, Sc 6]])
     (Vec [Vec [Sc 9, Sc 9, Sc 9], Vec [Sc 9, Sc 9, Sc 9]]) =
     Inr (Vec [Vec [Sc 10, Sc 20, Sc 30], Vec [Sc 60, Sc 75, Sc 90]])"
proof -
  have after: "TPMatrix_matvec copying_collaborators
     \<lparr>mats = [Identity (2, 2), band_matrix],
      space = plane_space, trialspace = plane_space,
      scale_array = Vec [Vec [Sc 10], Vec [Sc 15]],
      pmat = PmatMatrix band_matrix, naxes = [1], global_index = None,
      issimplified = True\<rparr>
     (Vec [Vec [Sc 1, Sc 2, Sc 3], Vec [Sc 4, Sc 5, Sc 6]])
     (Vec [Vec [Sc 9, Sc 9, Sc 9], Vec [Sc 9, Sc 9, Sc 9]]) =
     Inr (Vec [Vec [Sc 10, Sc 20, Sc 30], Vec [Sc 60, Sc 75, Sc 90]])"
    by (simp add: TPMatrix_matvec_def get_simplified_def copying_collaborators_def
          nd_binop_def assign_all_def fill_def)
  from matvec_of_simplified [OF plane_term_simplified] after plane_term_simplified
  show ?thesis by simp
qed

text \<open>
  C4.  The matrix of the diagonal axis of \<open>scaled_number_term\<close> is ten times the
  identity, stored as the number \<open>2\<close> with scale \<open>5\<close>.  \<^verbatim>\<open>get_simplified\<close> replaces it by
  an \<^verbatim>\<open>Identity\<close> and multiplies \<open>2\<close> into the scale array, not \<open>10\<close>: for a number the
  loop has \<^verbatim>\<open>scale = scale*d\<close> with \<^verbatim>\<open>d = mat[0]\<close>, where for an array it has
  \<^verbatim>\<open>d*mat.scale\<close>.  For the same matrix stored as the array \<open>[2, 2]\<close> with scale \<open>5\<close> the
  scale array gets \<open>10\<close>, and the two matrix-vector products differ by the factor \<open>5\<close>.
\<close>

theorem get_simplified_drops_scale:
  "get_simplified scaled_number_term =
     Inr \<lparr>mats = [Identity (2, 2), band_matrix],
          space = plane_space, trialspace = plane_space,
          scale_array = Vec [Vec [Sc 2]],
          pmat = PmatMatrix band_matrix, naxes = [1], global_index = None,
          issimplified = True\<rparr> \<and>
   get_simplified scaled_array_term =
     Inr \<lparr>mats = [Identity (2, 2), band_matrix],
          space = plane_space, trialspace = plane_space,
          scale_array = Vec [Vec [Sc 10], Vec [Sc 10]],
          pmat = PmatMatrix band_matrix, naxes = [1], global_index = None,
          issimplified = True\<rparr> \<and>
   TPMatrix_matvec copying_collaborators scaled_number_term
     (Vec [Vec [Sc 1, Sc 2, Sc 3], Vec [Sc 4, Sc 5, Sc 6]])
     (Vec [Vec [Sc 9, Sc 9, Sc 9], Vec [Sc 9, Sc 9, Sc 9]]) =
     Inr (Vec [Vec [Sc 2, Sc 4, Sc 6], Vec [Sc 8, Sc 10, Sc 12]]) \<and>
   TPMatrix_matvec copying_collaborators scaled_array_term
     (Vec [Vec [Sc 1, Sc 2, Sc 3], Vec [Sc 4, Sc 5, Sc 6]])
     (Vec [Vec [Sc 9, Sc 9, Sc 9], Vec [Sc 9, Sc 9, Sc 9]]) =
     Inr (Vec [Vec [Sc 10, Sc 20, Sc 30], Vec [Sc 40, Sc 50, Sc 60]])"
  by (simp add: TPMatrix_matvec_def tp_eval scaled_number_term_def scaled_array_term_def
        plane_space_def copying_collaborators_def assign_all_def fill_def)

section \<open>Merging structurally equal terms\<close>



















section \<open>Sums share diagonals with their right operand\<close>

lemmas store_eval =
  obj_add_def obj_sub_def deepcopy_dict_def new_array_def obj_incorporate_scale_def
  stored_binop_def stored_neg_def obj_setitem_def resolve_def value_of_def array_setitem_def

text \<open>
  C9.  \<open>A\<close> stores the main diagonal \<open>[1, 1]\<close> at address 0 and \<open>B\<close> the first upper
  diagonal \<open>[5]\<close> at address 1, both \<open>2 \<times> 2\<close> with scale one.  In \<^verbatim>\<open>C = A + B\<close>
  the diagonal \<open>0\<close> of \<open>C\<close> is a copy (address 2), but the diagonal \<open>1\<close> of \<open>C\<close> is
  the array at address 1, the one \<open>B\<close> stores: after \<^verbatim>\<open>C[1][0] = 99\<close> the matrix \<open>B\<close>
  has the diagonal \<open>[99]\<close> instead of \<open>[5]\<close>.
\<close>

theorem add_aliases_right_operand:
  "obj_add [[1, 1], [5]]
     \<lparr>obj_storage = [(0, ArrayRef 0)], obj_shape = (2, 2), obj_scale = 1\<rparr>
     \<lparr>obj_storage = [(1, ArrayRef 1)], obj_shape = (2, 2), obj_scale = 1\<rparr> =
   Inr ([[1, 1], [5], [1, 1]],
        \<lparr>obj_storage = [(0, ArrayRef 2), (1, ArrayRef 1)], obj_shape = (2, 2), obj_scale = 1\<rparr>,
        \<lparr>obj_storage = [(1, ArrayRef 1)], obj_shape = (2, 2), obj_scale = 1\<rparr>) \<and>
   value_of (array_setitem [[1, 1], [5], [1, 1]] 1 0 99)
     \<lparr>obj_storage = [(1, ArrayRef 1)], obj_shape = (2, 2), obj_scale = 1\<rparr> =
     \<lparr>storage = [(1, Arr [99])], shape = (2, 2), scale = 1\<rparr> \<and>
   value_of [[1, 1], [5]]
     \<lparr>obj_storage = [(1, ArrayRef 1)], obj_shape = (2, 2), obj_scale = 1\<rparr> =
     \<lparr>storage = [(1, Arr [5])], shape = (2, 2), scale = 1\<rparr>"
  by (simp add: store_eval)

text \<open>The difference of the same operands shares nothing: \<^verbatim>\<open>-val\<close> is a new array.\<close>

lemma sub_copies_right_operand:
  "obj_sub [[1, 1], [5]]
     \<lparr>obj_storage = [(0, ArrayRef 0)], obj_shape = (2, 2), obj_scale = 1\<rparr>
     \<lparr>obj_storage = [(1, ArrayRef 1)], obj_shape = (2, 2), obj_scale = 1\<rparr> =
   Inr ([[1, 1], [5], [1, 1], [- 5]],
        \<lparr>obj_storage = [(0, ArrayRef 2), (1, ArrayRef 3)], obj_shape = (2, 2), obj_scale = 1\<rparr>,
        \<lparr>obj_storage = [(1, ArrayRef 1)], obj_shape = (2, 2), obj_scale = 1\<rparr>)"
  by (simp add: store_eval)

text \<open>
  The combination itself changes no array that existed before (the refinement lemmas
  above) and leaves the effective matrix of the right operand as it was, although
  \<^verbatim>\<open>d.incorporate_scale()\<close> rewrites its diagonals and scale; the receiver is only read.
\<close>

lemma diag_map_ident: "diag_map (\<lambda>x. x) d = d"
  by (cases d) simp_all

lemma incorporate_scale_effective: "effective (incorporate_scale A) = effective A"
  by (auto simp add: effective_def incorporate_scale_def diag_map_ident)

lemma add_keeps_effective:
  assumes "SparseMatrix_add A B = Inr (C, B')"
  shows "effective B' = effective B" and "shape B' = shape B"
  using assms
  by (auto simp add: SparseMatrix_add_def Let_def incorporate_scale_effective incorporate_scale_shape
        split: if_splits sum.splits)

lemma sub_keeps_effective:
  assumes "SparseMatrix_sub A B = Inr (C, B')"
  shows "effective B' = effective B" and "shape B' = shape B"
  using assms
  by (auto simp add: SparseMatrix_sub_def Let_def incorporate_scale_effective incorporate_scale_shape
        split: if_splits sum.splits)

end
